theory Spec2Isabelle
  imports Main "HOL-Library.Sublist"
begin

section \<open>Python values and exceptions\<close>

text \<open>
  The attributes of a \<open>Book\<close> are not checked at run time: \<open>Book.from_dict\<close> stores
  whatever the decoded JSON document holds. A field is therefore a dynamically typed
  value. The universe is the one \<open>json.load\<close> produces (\<open>None\<close>, booleans, integers,
  floats, strings, lists, dictionaries with string keys); the graphical layer only ever
  builds books from three strings and an integer, and the CSV reader yields strings or
  \<open>None\<close>. A float is represented by its \<open>repr\<close> text. A string is a list of characters
  with code points below 256.
\<close>

datatype pyval =
    PyNone
  | PyBool bool
  | PyInt int
  | PyFloat string
  | PyStr string
  | PyList "pyval list"
  | PyDict "(string \<times> pyval) list"

text \<open>
  Exceptions are values. \<open>PyException msg e\<close> is the plain \<open>Exception\<close> that the
  internal load and save methods raise around an exception \<open>e\<close> they caught, with the
  fixed part \<open>msg\<close> of its message.
\<close>

datatype error =
    KeyError string
  | TypeError
  | ValueError
  | AttributeError
  | OSError
  | JSONDecodeError
  | UnicodeError
  | CsvError
  | PyException string error

fun bind_err :: "error + 'a \<Rightarrow> ('a \<Rightarrow> error + 'b) \<Rightarrow> error + 'b" where
  "bind_err (Inl e) f = Inl e"
| "bind_err (Inr x) f = f x"

fun map_err :: "('a \<Rightarrow> error + 'b) \<Rightarrow> 'a list \<Rightarrow> error + 'b list" where
  "map_err f [] = Inr []"
| "map_err f (x # xs) =
     (case f x of
        Inl e \<Rightarrow> Inl e
      | Inr y \<Rightarrow> (case map_err f xs of Inl e \<Rightarrow> Inl e | Inr ys \<Rightarrow> Inr (y # ys)))"

subsection \<open>Strings\<close>

text \<open>
  \<open>str.lower\<close> on code points below 256: the ASCII capitals and the Latin-1 capitals
  (192 to 222 except the multiplication sign 215) move up by 32; every other character
  is its own lower case.
\<close>

definition lower_char :: "char \<Rightarrow> char" where
  "lower_char c =
     (let n = (of_char c :: nat)
      in if (65 \<le> n \<and> n \<le> 90) \<or> (192 \<le> n \<and> n \<le> 222 \<and> n \<noteq> 215)
         then char_of (n + 32) else c)"

definition str_lower :: "string \<Rightarrow> string" where
  "str_lower s = map lower_char s"

text \<open>\<open>q in s\<close> for two strings: \<open>q\<close> occurs in \<open>s\<close> as a contiguous block.\<close>

fun starts_with :: "string \<Rightarrow> string \<Rightarrow> bool" where
  "starts_with s [] = True"
| "starts_with [] (q # qs) = False"
| "starts_with (c # cs) (q # qs) = (c = q \<and> starts_with cs qs)"

fun str_contains :: "string \<Rightarrow> string \<Rightarrow> bool" where
  "str_contains [] q = (q = [])"
| "str_contains (c # cs) q = (starts_with (c # cs) q \<or> str_contains cs q)"

definition endswith :: "string \<Rightarrow> string \<Rightarrow> bool" where
  "endswith s suf = (length suf \<le> length s \<and> drop (length s - length suf) s = suf)"

text \<open>
  \<open>str(n)\<close> and \<open>int(s)\<close> for the integers. \<open>int\<close> strips the white space it knows
  (tab to carriage return, the space, next line and the no-break space; not the
  separators 28 to 31, which \<open>str.isspace\<close> accepts), reads an optional sign and then
  decimal digits, where single underscores may stand between digits. Both conversions
  raise \<open>ValueError\<close> beyond 4300 digits, the interpreter's default limit; \<open>int\<close> counts
  the digit characters, leading zeros included.
\<close>

definition is_space :: "char \<Rightarrow> bool" where
  "is_space c =
     (let n = (of_char c :: nat)
      in (9 \<le> n \<and> n \<le> 13) \<or> n = 32 \<or> n = 133 \<or> n = 160)"

definition max_str_digits :: nat where
  "max_str_digits = 4300"

definition strip :: "string \<Rightarrow> string" where
  "strip s = rev (dropWhile is_space (rev (dropWhile is_space s)))"

definition is_digit :: "char \<Rightarrow> bool" where
  "is_digit c = (let n = (of_char c :: nat) in 48 \<le> n \<and> n \<le> 57)"

definition digit_val :: "char \<Rightarrow> nat" where
  "digit_val c = of_char c - 48"

definition digit_char :: "nat \<Rightarrow> char" where
  "digit_char d = char_of (48 + d)"

fun digits_val :: "nat \<Rightarrow> string \<Rightarrow> nat option" where
  "digits_val acc [] = Some acc"
| "digits_val acc [c] = (if is_digit c then Some (10 * acc + digit_val c) else None)"
| "digits_val acc (c # d # ds) =
     (if is_digit c then digits_val (10 * acc + digit_val c) (d # ds)
      else if c = CHR ''_'' \<and> is_digit d then digits_val (10 * acc + digit_val d) ds
      else None)"

definition parse_nat :: "string \<Rightarrow> nat option" where
  "parse_nat s =
     (if max_str_digits < length (filter is_digit s) then None
      else case s of
             [] \<Rightarrow> None
           | c # cs \<Rightarrow> if is_digit c then digits_val (digit_val c) cs else None)"

definition int_of_str :: "string \<Rightarrow> error + int" where
  "int_of_str s =
     (let t = strip s;
          r = (case t of
                 [] \<Rightarrow> None
               | c # cs \<Rightarrow>
                   if c = CHR ''-'' then map_option (\<lambda>n. - int n) (parse_nat cs)
                   else if c = CHR ''+'' then map_option int (parse_nat cs)
                   else map_option int (parse_nat t))
      in case r of None \<Rightarrow> Inl ValueError | Some i \<Rightarrow> Inr i)"

fun nat_digits :: "nat \<Rightarrow> string" where
  "nat_digits n =
     (if n < 10 then [digit_char n] else nat_digits (n div 10) @ [digit_char (n mod 10)])"

definition str_of_int :: "int \<Rightarrow> string" where
  "str_of_int i = (if i < 0 then CHR ''-'' # nat_digits (nat (- i)) else nat_digits (nat i))"

declare nat_digits.simps [simp del]

text \<open>
  \<open>int_ok i\<close>: the integer can be written as a decimal text. \<open>ints_ok v\<close>: every integer
  inside the value can, which is what \<open>str\<close>, \<open>repr\<close> and \<open>json.dump\<close> need of it.
\<close>

definition int_ok :: "int \<Rightarrow> bool" where
  "int_ok i = (length (nat_digits (nat (abs i))) \<le> max_str_digits)"

fun ints_ok :: "pyval \<Rightarrow> bool" where
  "ints_ok (PyInt i) = int_ok i"
| "ints_ok (PyList xs) = list_all ints_ok xs"
| "ints_ok (PyDict kvs) = list_all (\<lambda>kv. ints_ok (snd kv)) kvs"
| "ints_ok v = True"

text \<open>
  \<open>repr\<close> of a value whose integers can be written (otherwise \<open>repr\<close> raises
  \<open>ValueError\<close>), which is also its \<open>str\<close> unless the value is a string. A string
  is quoted with single quotes, or with double quotes when it holds a single quote and
  no double quote; the backslash, the chosen quote, tab, line feed and carriage return
  are escaped by a backslash, every other character that is not printable (below 32,
  127 to 160, and 173) is written as a two-digit hexadecimal escape.
\<close>

definition hex_digit :: "nat \<Rightarrow> char" where
  "hex_digit d = (if d < 10 then char_of (48 + d) else char_of (87 + d))"

definition repr_char :: "char \<Rightarrow> char \<Rightarrow> string" where
  "repr_char q c =
     (let n = (of_char c :: nat)
      in if n = 92 then [char_of (92 :: nat), char_of (92 :: nat)]
         else if c = q then [char_of (92 :: nat), q]
         else if n = 9 then [char_of (92 :: nat), CHR ''t'']
         else if n = 10 then [char_of (92 :: nat), CHR ''n'']
         else if n = 13 then [char_of (92 :: nat), CHR ''r'']
         else if n < 32 \<or> (127 \<le> n \<and> n \<le> 160) \<or> n = 173
           then [char_of (92 :: nat), CHR ''x'', hex_digit (n div 16), hex_digit (n mod 16)]
         else [c])"

definition repr_str :: "string \<Rightarrow> string" where
  "repr_str s =
     (let q = (if char_of (39 :: nat) \<in> set s \<and> char_of (34 :: nat) \<notin> set s
               then char_of (34 :: nat) else char_of (39 :: nat))
      in [q] @ concat (map (repr_char q) s) @ [q])"

fun join_str :: "string \<Rightarrow> string list \<Rightarrow> string" where
  "join_str sep [] = []"
| "join_str sep [x] = x"
| "join_str sep (x # y # ys) = x @ sep @ join_str sep (y # ys)"

fun py_repr :: "pyval \<Rightarrow> string" where
  "py_repr PyNone = ''None''"
| "py_repr (PyBool b) = (if b then ''True'' else ''False'')"
| "py_repr (PyInt i) = str_of_int i"
| "py_repr (PyFloat r) = r"
| "py_repr (PyStr s) = repr_str s"
| "py_repr (PyList xs) = ''['' @ join_str '', '' (map py_repr xs) @ '']''"
| "py_repr (PyDict kvs) =
     ''{'' @ join_str '', '' (map (\<lambda>kv. repr_str (fst kv) @ '': '' @ py_repr (snd kv)) kvs) @ ''}''"

section \<open>The record model\<close>

record Book =
  title :: pyval
  author :: pyval
  genre :: pyval
  year :: pyval

definition to_dict :: "Book \<Rightarrow> (string \<times> pyval) list" where
  "to_dict b = [(''title'', title b), (''author'', author b), (''genre'', genre b), (''year'', year b)]"

text \<open>
  \<open>data[key]\<close> for a string key: a dictionary raises \<open>KeyError\<close> when the key is absent,
  every other value raises \<open>TypeError\<close> (a list or a string takes integer indices, the
  others are not subscriptable).
\<close>

fun getitem :: "pyval \<Rightarrow> string \<Rightarrow> error + pyval" where
  "getitem (PyDict kvs) k = (case map_of kvs k of None \<Rightarrow> Inl (KeyError k) | Some v \<Rightarrow> Inr v)"
| "getitem v k = Inl TypeError"

definition from_dict :: "pyval \<Rightarrow> error + Book" where
  "from_dict data =
     bind_err (getitem data ''title'') (\<lambda>t.
     bind_err (getitem data ''author'') (\<lambda>a.
     bind_err (getitem data ''genre'') (\<lambda>g.
     bind_err (getitem data ''year'') (\<lambda>y.
       Inr \<lparr>title = t, author = a, genre = g, year = y\<rparr>))))"

text \<open>
  The typed records of the data model: three strings and an integer. This is what the
  annotations of \<open>Book.__init__\<close> say and what the graphical layer constructs.
\<close>

fun is_str :: "pyval \<Rightarrow> bool" where
  "is_str (PyStr s) = True"
| "is_str v = False"

fun is_int :: "pyval \<Rightarrow> bool" where
  "is_int (PyInt i) = True"
| "is_int v = False"

definition is_record :: "Book \<Rightarrow> bool" where
  "is_record b = (is_str (title b) \<and> is_str (author b) \<and> is_str (genre b) \<and> is_int (year b))"

text \<open>The length of a text field (0 for a value that is not a string).\<close>

fun str_len :: "pyval \<Rightarrow> nat" where
  "str_len (PyStr s) = length s"
| "str_len v = 0"

section \<open>Files, the JSON and CSV libraries, dialogs\<close>

text \<open>
  The \<open>json\<close> and \<open>csv\<close> modules are library code. A file is modelled by what its text
  denotes to the two readers: \<open>json_doc\<close> is the JSON document (\<open>None\<close> when the text is
  not one), \<open>csv_doc\<close> is the list of rows of cells under the CSV quoting rules, a blank
  line being the empty row (\<open>None\<close> when the text cannot be decoded). A file that the
  program did not write may have any two views. What the readers make of a document,
  with their own limits, is \<open>json_load\<close> and \<open>read_csv_books\<close> below. The platform's text
  encoding is taken to encode every character, as UTF-8 does.
\<close>

record textfile =
  json_doc :: "pyval option"
  csv_doc :: "string list list option"

text \<open>
  The file after \<open>json.dump(ds, f, indent=2)\<close> for a list of dictionaries. The encoder
  writes the text piece by piece and raises \<open>ValueError\<close> at an integer of more than
  4300 digits (\<open>dump_ok\<close> says there is none): then the file is left with the text up
  to that integer, which is not a JSON document. Otherwise the text denotes the list.
  Of the rows of the text, the model keeps those a \<open>DictReader\<close> can reach: the text of
  the empty list is the one line \<open>[]\<close>; otherwise the first line is \<open>[\<close> and the second,
  the opening brace of the first dictionary, is a data row without a \<open>title\<close> column,
  where every reader of the program stops.
\<close>

definition dump_ok :: "(string \<times> pyval) list list \<Rightarrow> bool" where
  "dump_ok ds = list_all (\<lambda>d. list_all (\<lambda>kv. ints_ok (snd kv)) d) ds"

definition json_dump :: "(string \<times> pyval) list list \<Rightarrow> textfile" where
  "json_dump ds =
     \<lparr>json_doc = (if dump_ok ds then Some (PyList (map PyDict ds)) else None),
      csv_doc = Some (if ds = [] then [[''[]'']] else [[''[''], [''  {'']])\<rparr>"

text \<open>
  A \<open>csv.DictWriter\<close> over the given field names. A cell is the value under the field
  name: \<open>None\<close> is written as the empty text, a string as itself, anything else as its
  \<open>str\<close>, which raises \<open>ValueError\<close> at an integer of more than 4300 digits. A row is
  converted before any of it is written. The dictionaries of \<open>to_dict\<close> have exactly the
  four field names as keys, so the writer's check for extra keys never fires.
\<close>

definition csv_cell :: "pyval option \<Rightarrow> error + string" where
  "csv_cell v =
     (case v of
        None \<Rightarrow> Inr []
      | Some PyNone \<Rightarrow> Inr []
      | Some (PyStr s) \<Rightarrow> Inr s
      | Some x \<Rightarrow> if ints_ok x then Inr (py_repr x) else Inl ValueError)"

definition dict_to_list :: "string list \<Rightarrow> (string \<times> pyval) list \<Rightarrow> error + string list" where
  "dict_to_list fieldnames rowdict = map_err (\<lambda>k. csv_cell (map_of rowdict k)) fieldnames"

text \<open>
  \<open>writerow\<close> for each dictionary in turn: the rows written, and the exception that
  stopped the loop, if any. \<open>csv_dump\<close> is the file after \<open>writeheader\<close> and that loop:
  the header and the rows written, quoted by the library so that they are the rows of
  the text. The text starts with the header line and is therefore not a JSON document.
\<close>

fun write_rows :: "string list \<Rightarrow> (string \<times> pyval) list list \<Rightarrow> string list list \<times> error option" where
  "write_rows fieldnames [] = ([], None)"
| "write_rows fieldnames (d # ds) =
     (case dict_to_list fieldnames d of
        Inl e \<Rightarrow> ([], Some e)
      | Inr r \<Rightarrow> (case write_rows fieldnames ds of (rs, e) \<Rightarrow> (r # rs, e)))"

definition csv_dump :: "string list \<Rightarrow> (string \<times> pyval) list list \<Rightarrow> textfile" where
  "csv_dump fieldnames ds =
     \<lparr>json_doc = None, csv_doc = Some (fieldnames # fst (write_rows fieldnames ds))\<rparr>"

text \<open>
  \<open>csv.reader\<close> raises its \<open>Error\<close> at a row with a field of more than 131072
  characters, the default of \<open>csv.field_size_limit\<close>, after it has yielded the rows
  before it.
\<close>

definition field_limit :: nat where
  "field_limit = 131072"

definition row_ok :: "string list \<Rightarrow> bool" where
  "row_ok r = list_all (\<lambda>c. length c \<le> field_limit) r"

text \<open>
  \<open>csv.DictReader\<close>: the first row is the header, blank rows after it are skipped, and
  each remaining row becomes a dictionary: the header zipped with the cells (a later
  duplicate of a field name overwrites an earlier one), then \<open>None\<close> under every field
  name the row is too short for. Cells beyond the header go under the key \<open>None\<close>, which
  no string key reaches.
\<close>

definition row_dict :: "string list \<Rightarrow> string list \<Rightarrow> (string \<rightharpoonup> string option)" where
  "row_dict fieldnames row =
     fold (\<lambda>kv m. m(fst kv \<mapsto> snd kv))
       (zip fieldnames (map Some row) @ map (\<lambda>k. (k, None)) (drop (length row) fieldnames))
       Map.empty"

fun dict_reader :: "string list list \<Rightarrow> (string \<rightharpoonup> string option) list" where
  "dict_reader [] = []"
| "dict_reader (fieldnames # rows) = map (row_dict fieldnames) (filter (\<lambda>r. r \<noteq> []) rows)"

definition row_getitem :: "(string \<rightharpoonup> string option) \<Rightarrow> string \<Rightarrow> error + string option" where
  "row_getitem row k = (case row k of None \<Rightarrow> Inl (KeyError k) | Some c \<Rightarrow> Inr c)"

definition cell_val :: "string option \<Rightarrow> pyval" where
  "cell_val c = (case c of None \<Rightarrow> PyNone | Some s \<Rightarrow> PyStr s)"

definition py_int :: "string option \<Rightarrow> error + int" where
  "py_int c = (case c of None \<Rightarrow> Inl TypeError | Some s \<Rightarrow> int_of_str s)"

text \<open>\<open>Book(row['title'], row['author'], row['genre'], int(row['year']))\<close>\<close>

definition book_of_row :: "(string \<rightharpoonup> string option) \<Rightarrow> error + Book" where
  "book_of_row row =
     bind_err (row_getitem row ''title'') (\<lambda>t.
     bind_err (row_getitem row ''author'') (\<lambda>a.
     bind_err (row_getitem row ''genre'') (\<lambda>g.
     bind_err (row_getitem row ''year'') (\<lambda>y.
     bind_err (py_int y) (\<lambda>i.
       Inr \<lparr>title = cell_val t, author = cell_val a, genre = cell_val g, year = PyInt i\<rparr>)))))"

text \<open>
  \<open>for book_data in data\<close>: a list yields its elements, a dictionary its keys, a
  string its characters; nothing else can be iterated.
\<close>

fun py_iter :: "pyval \<Rightarrow> error + pyval list" where
  "py_iter (PyList xs) = Inr xs"
| "py_iter (PyDict kvs) = Inr (map (\<lambda>kv. PyStr (fst kv)) kvs)"
| "py_iter (PyStr s) = Inr (map (\<lambda>c. PyStr [c]) s)"
| "py_iter v = Inl TypeError"

text \<open>
  The world outside the store: the files by path, the paths that cannot be opened for
  writing, and the error dialogs shown so far (\<open>messagebox.showerror\<close>, with the fixed
  part of the message and the exception it reports, if any). Opening a file for
  writing either fails and leaves the files as they are, or empties the file, which
  then holds whatever was written until the writer finished or raised.
\<close>

datatype dialog = ShowError string "error option"

record world =
  files :: "string \<rightharpoonup> textfile"
  read_only :: "string set"
  dialogs :: "dialog list"

definition path_exists :: "string \<Rightarrow> world \<Rightarrow> bool" where
  "path_exists p w = (files w p \<noteq> None)"

definition open_r :: "string \<Rightarrow> world \<Rightarrow> error + textfile" where
  "open_r p w = (case files w p of None \<Rightarrow> Inl OSError | Some f \<Rightarrow> Inr f)"

definition open_w :: "string \<Rightarrow> world \<Rightarrow> error + unit" where
  "open_w p w = (if p \<in> read_only w then Inl OSError else Inr ())"

definition write_file :: "string \<Rightarrow> textfile \<Rightarrow> world \<Rightarrow> world" where
  "write_file p f w = w\<lparr>files := (files w)(p \<mapsto> f)\<rparr>"

text \<open>
  \<open>json.load\<close> raises \<open>JSONDecodeError\<close> on a text that is not a JSON document and
  \<open>ValueError\<close> on a document with an integer of more than 4300 digits.
\<close>

definition json_load :: "textfile \<Rightarrow> error + pyval" where
  "json_load f =
     (case json_doc f of
        None \<Rightarrow> Inl JSONDecodeError
      | Some v \<Rightarrow> if ints_ok v then Inr v else Inl ValueError)"

definition csv_rows :: "textfile \<Rightarrow> error + string list list" where
  "csv_rows f = (case csv_doc f of None \<Rightarrow> Inl UnicodeError | Some rows \<Rightarrow> Inr rows)"

definition showerror :: "string \<Rightarrow> error option \<Rightarrow> world \<Rightarrow> world" where
  "showerror msg e w = w\<lparr>dialogs := dialogs w @ [ShowError msg e]\<rparr>"

text \<open>
  The two parsers, as \<open>_load_from_json\<close>, \<open>_load_from_csv\<close> and \<open>import_library\<close> use
  them. The list comprehension over the \<open>DictReader\<close> builds a book from every row the
  reader yields, in order, so that an exception of a row comes before the reader's
  \<open>Error\<close> at a later row with an over-long field.
\<close>

definition read_json_books :: "string \<Rightarrow> world \<Rightarrow> error + Book list" where
  "read_json_books p w =
     bind_err (open_r p w) (\<lambda>f.
     bind_err (json_load f) (\<lambda>data.
     bind_err (py_iter data) (\<lambda>items. map_err from_dict items)))"

definition read_csv_books :: "string \<Rightarrow> world \<Rightarrow> error + Book list" where
  "read_csv_books p w =
     bind_err (open_r p w) (\<lambda>f.
     bind_err (csv_rows f) (\<lambda>rows.
     bind_err (map_err book_of_row (dict_reader (takeWhile row_ok rows))) (\<lambda>bs.
       if list_all row_ok rows then Inr bs else Inl CsvError)))"

section \<open>The collection store\<close>

text \<open>
  \<open>class Library\<close>. Every method takes the store and the world and returns its result
  with the store and the world after the call. A method whose body is wrapped in
  \<open>try\<close>/\<open>except Exception\<close> returns a plain value; a method that can raise returns
  \<open>error + value\<close>, \<open>Inl\<close> being the exception that leaves it. The internal methods
  \<open>_save_to_json\<close>, \<open>_save_to_csv\<close>, \<open>_load_from_json\<close> and \<open>_load_from_csv\<close> are named
  here without the leading underscore.
\<close>

record Library =
  books :: "Book list"
  json_filename :: string
  csv_filename :: string

definition fieldnames :: "string list" where
  "fieldnames = [''title'', ''author'', ''genre'', ''year'']"

definition save_to_json :: "Library \<Rightarrow> world \<Rightarrow> (error + bool) \<times> Library \<times> world" where
  "save_to_json L w =
     (case open_w (json_filename L) w of
        Inl e \<Rightarrow> (Inl (PyException ''JSON save error'' e), L, w)
      | Inr u \<Rightarrow>
          (if dump_ok (map to_dict (books L)) then Inr True
           else Inl (PyException ''JSON save error'' ValueError),
           L, write_file (json_filename L) (json_dump (map to_dict (books L))) w))"

definition save_to_csv :: "Library \<Rightarrow> world \<Rightarrow> (error + bool) \<times> Library \<times> world" where
  "save_to_csv L w =
     (case open_w (csv_filename L) w of
        Inl e \<Rightarrow> (Inl (PyException ''CSV save error'' e), L, w)
      | Inr u \<Rightarrow>
          (case snd (write_rows fieldnames (map to_dict (books L))) of
             None \<Rightarrow> Inr True
           | Some e \<Rightarrow> Inl (PyException ''CSV save error'' e),
           L, write_file (csv_filename L) (csv_dump fieldnames (map to_dict (books L))) w))"

definition save_library :: "string \<Rightarrow> Library \<Rightarrow> world \<Rightarrow> bool \<times> Library \<times> world" where
  "save_library format L w =
     (case (if format = ''json'' then save_to_json L w
            else if format = ''csv'' then save_to_csv L w
            else (Inr False, L, w)) of
        (Inl e, L', w') \<Rightarrow> (False, L', showerror ''Failed to save library'' (Some e) w')
      | (Inr r, L', w') \<Rightarrow> (r, L', w'))"

definition load_from_json :: "Library \<Rightarrow> world \<Rightarrow> (error + bool) \<times> Library \<times> world" where
  "load_from_json L w =
     (case read_json_books (json_filename L) w of
        Inl e \<Rightarrow> (Inl (PyException ''JSON load error'' e), L, w)
      | Inr bs \<Rightarrow> (Inr True, L\<lparr>books := bs\<rparr>, w))"

definition load_from_csv :: "Library \<Rightarrow> world \<Rightarrow> (error + bool) \<times> Library \<times> world" where
  "load_from_csv L w =
     (case read_csv_books (csv_filename L) w of
        Inl e \<Rightarrow> (Inl (PyException ''CSV load error'' e), L, w)
      | Inr bs \<Rightarrow> (Inr True, L\<lparr>books := bs\<rparr>, w))"

definition load_library :: "Library \<Rightarrow> world \<Rightarrow> bool \<times> Library \<times> world" where
  "load_library L w =
     (case (if path_exists (json_filename L) w then load_from_json L w
            else if path_exists (csv_filename L) w then load_from_csv L w
            else (Inr False, L, w)) of
        (Inl e, L', w') \<Rightarrow> (False, L', showerror ''Failed to load library'' (Some e) w')
      | (Inr r, L', w') \<Rightarrow> (r, L', w'))"

text \<open>\<open>Library.__init__\<close>: the empty collection, the two canonical file names, then \<open>load_library\<close>.\<close>

definition empty_library :: Library where
  "empty_library =
     \<lparr>books = [], json_filename = ''library_data.json'', csv_filename = ''library_data.csv''\<rparr>"

definition Library_init :: "world \<Rightarrow> Library \<times> world" where
  "Library_init w = snd (load_library empty_library w)"

definition add_book :: "Book \<Rightarrow> Library \<Rightarrow> world \<Rightarrow> Library \<times> world" where
  "add_book book L w = snd (save_library ''json'' (L\<lparr>books := books L @ [book]\<rparr>) w)"

text \<open>
  \<open>book.title.lower()\<close>: only a string has the method. The loop of \<open>remove_book\<close> looks
  for the index of the first book whose lowered title equals the lowered argument; it
  raises at a title that is not a string, if it gets there.
\<close>

fun py_lower :: "pyval \<Rightarrow> error + string" where
  "py_lower (PyStr s) = Inr (str_lower s)"
| "py_lower v = Inl AttributeError"

fun find_title :: "string \<Rightarrow> Book list \<Rightarrow> nat \<Rightarrow> error + nat option" where
  "find_title t [] i = Inr None"
| "find_title t (book # rest) i =
     (case py_lower (title book) of
        Inl e \<Rightarrow> Inl e
      | Inr s \<Rightarrow> if s = str_lower t then Inr (Some i) else find_title t rest (Suc i))"

definition remove_book :: "string \<Rightarrow> Library \<Rightarrow> world \<Rightarrow> (error + bool) \<times> Library \<times> world" where
  "remove_book t L w =
     (case find_title t (books L) 0 of
        Inl e \<Rightarrow> (Inl e, L, w)
      | Inr None \<Rightarrow> (Inr False, L, w)
      | Inr (Some i) \<Rightarrow>
          (case save_library ''json'' (L\<lparr>books := take i (books L) @ drop (Suc i) (books L)\<rparr>) w of
             (r, L', w') \<Rightarrow> (Inr True, L', w')))"

text \<open>
  The condition of \<open>search_books\<close>, with Python's evaluation order: the author is only
  lowered when the title does not match, the genre only when neither does.
\<close>

definition book_matches :: "string \<Rightarrow> Book \<Rightarrow> error + bool" where
  "book_matches q book =
     bind_err (py_lower (title book)) (\<lambda>t.
       if str_contains t q then Inr True
       else bind_err (py_lower (author book)) (\<lambda>a.
         if str_contains a q then Inr True
         else bind_err (py_lower (genre book)) (\<lambda>g. Inr (str_contains g q))))"

fun search_loop :: "string \<Rightarrow> Book list \<Rightarrow> Book list \<Rightarrow> error + Book list" where
  "search_loop q [] results = Inr results"
| "search_loop q (book # rest) results =
     (case book_matches q book of
        Inl e \<Rightarrow> Inl e
      | Inr m \<Rightarrow> search_loop q rest (if m then results @ [book] else results))"

definition search_books :: "string \<Rightarrow> Library \<Rightarrow> world \<Rightarrow> (error + Book list) \<times> Library \<times> world" where
  "search_books query L w = (search_loop (str_lower query) (books L) [], L, w)"

definition get_all_books :: "Library \<Rightarrow> Book list" where
  "get_all_books L = books L"

definition export_library :: "string \<Rightarrow> string \<Rightarrow> Library \<Rightarrow> world \<Rightarrow> bool \<times> Library \<times> world" where
  "export_library filename format L w =
     (if format = ''json'' then
        (case open_w filename w of
           Inl e \<Rightarrow> (False, L, showerror ''Failed to export library'' (Some e) w)
         | Inr u \<Rightarrow>
             (if dump_ok (map to_dict (books L))
              then (True, L, write_file filename (json_dump (map to_dict (books L))) w)
              else (False, L,
                    showerror ''Failed to export library'' (Some ValueError)
                      (write_file filename (json_dump (map to_dict (books L))) w))))
      else if format = ''csv'' then
        (case open_w filename w of
           Inl e \<Rightarrow> (False, L, showerror ''Failed to export library'' (Some e) w)
         | Inr u \<Rightarrow>
             (case snd (write_rows fieldnames (map to_dict (books L))) of
                None \<Rightarrow> (True, L, write_file filename (csv_dump fieldnames (map to_dict (books L))) w)
              | Some e \<Rightarrow>
                  (False, L,
                   showerror ''Failed to export library'' (Some e)
                     (write_file filename (csv_dump fieldnames (map to_dict (books L))) w))))
      else (False, L, w))"

text \<open>
  \<open>import_library\<close>: \<open>import_parse\<close> is the part of the \<open>try\<close> body that fills
  \<open>temp_books\<close>; \<open>None\<close> stands for the \<open>else\<close> branch, which shows its own dialog and
  returns. After a successful parse the books are appended and \<open>save_library()\<close> is
  called with its default format; its result is dropped.
\<close>

definition import_parse :: "string \<Rightarrow> world \<Rightarrow> (error + Book list) option" where
  "import_parse filename w =
     (if endswith filename ''.json'' then Some (read_json_books filename w)
      else if endswith filename ''.csv'' then Some (read_csv_books filename w)
      else None)"

definition import_library :: "string \<Rightarrow> Library \<Rightarrow> world \<Rightarrow> bool \<times> Library \<times> world" where
  "import_library filename L w =
     (case import_parse filename w of
        None \<Rightarrow> (False, L, showerror ''Unsupported file format'' None w)
      | Some (Inl e) \<Rightarrow> (False, L, showerror ''Failed to import library'' (Some e) w)
      | Some (Inr temp_books) \<Rightarrow>
          (case save_library ''json'' (L\<lparr>books := books L @ temp_books\<rparr>) w of
             (r, L', w') \<Rightarrow> (True, L', w')))"

section \<open>Example data\<close>

text \<open>The two books of the specification's examples, a third one, and a store holding the first two.\<close>

definition dune :: Book where
  "dune = \<lparr>title = PyStr ''Dune'', author = PyStr ''Frank Herbert'', genre = PyStr ''Sci-Fi'',
            year = PyInt 1965\<rparr>"

definition foundation :: Book where
  "foundation = \<lparr>title = PyStr ''Foundation'', author = PyStr ''Isaac Asimov'',
                  genre = PyStr ''Sci-Fi'', year = PyInt 1951\<rparr>"

definition emma :: Book where
  "emma = \<lparr>title = PyStr ''Emma'', author = PyStr ''Jane Austen'', genre = PyStr ''Novel'',
            year = PyInt 1815\<rparr>"

definition shelf :: Library where
  "shelf = \<lparr>books = [dune, foundation], json_filename = ''library_data.json'',
             csv_filename = ''library_data.csv''\<rparr>"

definition no_files :: world where
  "no_files = \<lparr>files = Map.empty, read_only = {}, dialogs = []\<rparr>"

text \<open>A CSV file with the header and one row, and a JSON file whose one record has a text as its year.\<close>

definition extra_csv :: textfile where
  "extra_csv =
     \<lparr>json_doc = None,
      csv_doc = Some [[''title'', ''author'', ''genre'', ''year''],
                      [''Emma'', ''Jane Austen'', ''Novel'', ''1815'']]\<rparr>"

definition odd_year :: "(string \<times> pyval) list" where
  "odd_year = [(''title'', PyStr ''Dune''), (''author'', PyStr ''Frank Herbert''),
               (''genre'', PyStr ''Sci-Fi''), (''year'', PyStr ''nineteen sixty-five'')]"

definition odd_json :: textfile where
  "odd_json = \<lparr>json_doc = Some (PyList [PyDict odd_year]), csv_doc = Some [[''[''], [''  {'']]\<rparr>"



definition padded_csv :: textfile where
  "padded_csv =
     \<lparr>json_doc = None,
      csv_doc = Some [[''title'', ''author'', ''genre'', ''year''],
                      [''Emma'', ''Jane Austen'', ''Novel'', char_of (31 :: nat) # ''1815'']]\<rparr>"

text \<open>A CSV file whose one row has the same text as its year.\<close>

definition odd_csv :: textfile where
  "odd_csv =
     \<lparr>json_doc = None,
      csv_doc = Some [[''title'', ''author'', ''genre'', ''year''],
                      [''Dune'', ''Frank Herbert'', ''Sci-Fi'', ''nineteen sixty-five'']]\<rparr>"

text \<open>A CSV file whose year cell is not a decimal number.\<close>

definition old_csv :: textfile where
  "old_csv =
     \<lparr>json_doc = None,
      csv_doc = Some [[''title'', ''author'', ''genre'', ''year''],
                      [''Emma'', ''Jane Austen'', ''Novel'', ''MDCCCXV'']]\<rparr>"

section \<open>Verification\<close>

subsection \<open>Auxiliary facts\<close>

lemma is_digit_digit_char: "d < 10 \<Longrightarrow> is_digit (digit_char d)"
  by (simp add: is_digit_def digit_char_def)

lemma digit_val_digit_char: "d < 10 \<Longrightarrow> digit_val (digit_char d) = d"
  by (simp add: digit_val_def digit_char_def)

lemma nat_digits_digits: "c \<in> set (nat_digits n) \<Longrightarrow> is_digit c"
proof (induction n rule: nat_digits.induct)
  case (1 n)
  show ?case
  proof (cases "n < 10")
    case True
    with "1.prems" show ?thesis
      by (simp add: nat_digits.simps [of n] is_digit_digit_char)
  next
    case False
    with "1.prems" "1.IH" show ?thesis
      by (auto simp: nat_digits.simps [of n] is_digit_digit_char)
  qed
qed

lemma nat_digits_nonempty: "nat_digits n \<noteq> []"
  by (subst nat_digits.simps) simp

lemma digits_val_all_digits:
  "\<forall>c \<in> set ds. is_digit c \<Longrightarrow>
   digits_val acc ds = Some (foldl (\<lambda>a c. 10 * a + digit_val c) acc ds)"
  by (induction acc ds rule: digits_val.induct) simp_all

lemma foldl_nat_digits: "foldl (\<lambda>a c. 10 * a + digit_val c) 0 (nat_digits n) = n"
proof (induction n rule: nat_digits.induct)
  case (1 n)
  show ?case
  proof (cases "n < 10")
    case True
    then show ?thesis
      by (simp add: nat_digits.simps [of n] digit_val_digit_char)
  next
    case False
    with "1.IH" show ?thesis
      by (simp add: nat_digits.simps [of n] digit_val_digit_char)
  qed
qed

lemma filter_digits_nat_digits: "filter is_digit (nat_digits n) = nat_digits n"
  by (rule filter_True) (simp add: nat_digits_digits)

lemma parse_nat_nat_digits:
  assumes "length (nat_digits n) \<le> max_str_digits"
  shows "parse_nat (nat_digits n) = Some n"
proof (cases "nat_digits n")
  case Nil
  then show ?thesis by (simp add: nat_digits_nonempty)
next
  case (Cons c cs)
  have all: "\<forall>x \<in> set (c # cs). is_digit x"
    using nat_digits_digits [of _ n] Cons by auto
  have "foldl (\<lambda>a c. 10 * a + digit_val c) 0 (c # cs) = n"
    using foldl_nat_digits [of n] Cons by simp
  then have f: "foldl (\<lambda>a c. 10 * a + digit_val c) (digit_val c) cs = n"
    by simp
  have "\<not> max_str_digits < length (filter is_digit (nat_digits n))"
    using assms by (simp add: filter_digits_nat_digits)
  then have "parse_nat (nat_digits n) = digits_val (digit_val c) cs"
    using all Cons by (simp add: parse_nat_def)
  with all f show ?thesis
    by (simp add: digits_val_all_digits)
qed

lemma is_digit_not_space: "is_digit c \<Longrightarrow> \<not> is_space c"
  by (auto simp: is_digit_def is_space_def Let_def)

lemma strip_id: "s \<noteq> [] \<Longrightarrow> \<not> is_space (hd s) \<Longrightarrow> \<not> is_space (last s) \<Longrightarrow> strip s = s"
proof -
  assume ne: "s \<noteq> []" and h: "\<not> is_space (hd s)" and l: "\<not> is_space (last s)"
  from ne h have "dropWhile is_space s = s"
    by (cases s) simp_all
  moreover from ne l have "dropWhile is_space (rev s) = rev s"
    by (cases "rev s") (simp_all add: last_rev [symmetric] hd_rev)
  ultimately show ?thesis by (simp add: strip_def)
qed

lemma strip_nat_digits: "strip (nat_digits n) = nat_digits n"
proof (rule strip_id)
  show "nat_digits n \<noteq> []" by (rule nat_digits_nonempty)
  show "\<not> is_space (hd (nat_digits n))"
    using nat_digits_nonempty [of n] nat_digits_digits [of "hd (nat_digits n)" n]
    by (simp add: is_digit_not_space)
  show "\<not> is_space (last (nat_digits n))"
    using nat_digits_nonempty [of n] nat_digits_digits [of "last (nat_digits n)" n]
    by (simp add: is_digit_not_space)
qed

lemma strip_minus_nat_digits: "strip (CHR ''-'' # nat_digits n) = CHR ''-'' # nat_digits n"
proof (rule strip_id)
  show "CHR ''-'' # nat_digits n \<noteq> []" by simp
  show "\<not> is_space (hd (CHR ''-'' # nat_digits n))" by (simp add: is_space_def)
  show "\<not> is_space (last (CHR ''-'' # nat_digits n))"
    using nat_digits_nonempty [of n] nat_digits_digits [of "last (nat_digits n)" n]
    by (simp add: is_digit_not_space)
qed

lemma hd_nat_digits_digit: "is_digit (hd (nat_digits n))"
  using nat_digits_nonempty [of n] nat_digits_digits [of "hd (nat_digits n)" n] by simp

lemma int_of_str_str_of_int:
  assumes "int_ok i"
  shows "int_of_str (str_of_int i) = Inr i"
proof (cases "i < 0")
  case True
  with assms have "length (nat_digits (nat (- i))) \<le> max_str_digits"
    by (simp add: int_ok_def)
  then have "parse_nat (nat_digits (nat (- i))) = Some (nat (- i))"
    by (rule parse_nat_nat_digits)
  with True show ?thesis
    by (simp add: int_of_str_def str_of_int_def strip_minus_nat_digits)
next
  case False
  with assms have len: "length (nat_digits (nat i)) \<le> max_str_digits"
    by (simp add: int_ok_def)
  obtain c cs where cs: "nat_digits (nat i) = c # cs"
    using nat_digits_nonempty [of "nat i"] by (cases "nat_digits (nat i)") auto
  have d: "is_digit c" using hd_nat_digits_digit [of "nat i"] cs by simp
  then have "c \<noteq> CHR ''-''" "c \<noteq> CHR ''+''"
    by (auto simp: is_digit_def)
  moreover have "parse_nat (c # cs) = Some (nat i)"
    using parse_nat_nat_digits [OF len] cs by simp
  moreover have "strip (c # cs) = c # cs"
    using strip_nat_digits [of "nat i"] cs by simp
  ultimately show ?thesis using False cs
    by (simp add: int_of_str_def str_of_int_def)
qed

lemma length_str_of_int: "int_ok i \<Longrightarrow> length (str_of_int i) \<le> field_limit"
  by (auto simp: int_ok_def str_of_int_def max_str_digits_def field_limit_def)

lemma ints_ok_dump: "ints_ok (PyList (map PyDict ds)) = dump_ok ds"
  by (simp add: dump_ok_def list_all_iff)

lemma dump_ok_to_dict:
  "dump_ok (map to_dict bs) =
     list_all (\<lambda>b. ints_ok (title b) \<and> ints_ok (author b) \<and> ints_ok (genre b) \<and> ints_ok (year b)) bs"
  by (simp add: dump_ok_def to_dict_def list_all_iff)

lemma from_dict_to_dict: "from_dict (PyDict (to_dict b)) = Inr b"
  by (simp add: from_dict_def to_dict_def)

lemma map_err_from_dict: "map_err from_dict (map (PyDict \<circ> to_dict) bs) = Inr bs"
  by (induction bs) (simp_all add: from_dict_to_dict)

lemma is_str_PyStr: "is_str v \<Longrightarrow> \<exists>s. v = PyStr s"
  by (cases v) simp_all

lemma is_int_PyInt: "is_int v \<Longrightarrow> \<exists>i. v = PyInt i"
  by (cases v) simp_all

lemma is_record_cases:
  assumes "is_record b"
  obtains t a g y where "b = \<lparr>title = PyStr t, author = PyStr a, genre = PyStr g, year = PyInt y\<rparr>"
proof -
  from assms have "is_str (title b)" "is_str (author b)" "is_str (genre b)" "is_int (year b)"
    by (simp_all add: is_record_def)
  then obtain t a g y where
    "title b = PyStr t" "author b = PyStr a" "genre b = PyStr g" "year b = PyInt y"
    by (blast dest: is_str_PyStr is_int_PyInt)
  then have "b = \<lparr>title = PyStr t, author = PyStr a, genre = PyStr g, year = PyInt y\<rparr>"
    by (cases b) simp
  then show ?thesis by (rule that)
qed

lemma csv_row_of_record:
  "dict_to_list fieldnames (to_dict \<lparr>title = PyStr t, author = PyStr a, genre = PyStr g, year = PyInt y\<rparr>)
     = (if int_ok y then Inr [t, a, g, str_of_int y] else Inl ValueError)"
  by (simp add: dict_to_list_def fieldnames_def to_dict_def csv_cell_def)

lemma book_of_row_str_of_int:
  "int_ok y \<Longrightarrow>
   book_of_row (row_dict fieldnames [t, a, g, str_of_int y])
     = Inr \<lparr>title = PyStr t, author = PyStr a, genre = PyStr g, year = PyInt y\<rparr>"
  by (simp add: book_of_row_def row_dict_def fieldnames_def row_getitem_def cell_val_def
      py_int_def int_of_str_str_of_int)

lemma record_row:
  assumes "is_record b" and "dict_to_list fieldnames (to_dict b) = Inr r"
    and "str_len (title b) \<le> field_limit \<and> str_len (author b) \<le> field_limit \<and>
         str_len (genre b) \<le> field_limit"
  shows "r \<noteq> [] \<and> row_ok r \<and> book_of_row (row_dict fieldnames r) = Inr b"
proof -
  from assms(1) obtain t a g y
    where b: "b = \<lparr>title = PyStr t, author = PyStr a, genre = PyStr g, year = PyInt y\<rparr>"
    by (rule is_record_cases)
  from assms(2) have y: "int_ok y" and r: "r = [t, a, g, str_of_int y]"
    by (auto simp: b csv_row_of_record split: if_splits)
  from assms(3) y have "row_ok r"
    by (simp add: b r row_ok_def length_str_of_int)
  moreover from y have "book_of_row (row_dict fieldnames r) = Inr b"
    by (simp add: b r book_of_row_str_of_int)
  ultimately show ?thesis by (simp add: r)
qed

lemma row_ok_fieldnames: "row_ok fieldnames"
  by (simp add: row_ok_def fieldnames_def field_limit_def)

lemma records_read_back:
  assumes "list_all is_record bs"
    and "list_all (\<lambda>b. str_len (title b) \<le> field_limit \<and> str_len (author b) \<le> field_limit \<and>
                        str_len (genre b) \<le> field_limit) bs"
    and "snd (write_rows fieldnames (map to_dict bs)) = None"
  shows "takeWhile row_ok (fst (write_rows fieldnames (map to_dict bs)))
           = fst (write_rows fieldnames (map to_dict bs)) \<and>
         list_all row_ok (fst (write_rows fieldnames (map to_dict bs))) \<and>
         map_err book_of_row
           (map (row_dict fieldnames)
              (filter (\<lambda>r. r \<noteq> []) (fst (write_rows fieldnames (map to_dict bs))))) = Inr bs"
  using assms
proof (induction bs)
  case Nil
  show ?case by simp
next
  case (Cons b bs)
  from Cons.prems(3) obtain r where r: "dict_to_list fieldnames (to_dict b) = Inr r"
    and rest: "snd (write_rows fieldnames (map to_dict bs)) = None"
    and f: "fst (write_rows fieldnames (map to_dict (b # bs)))
              = r # fst (write_rows fieldnames (map to_dict bs))"
    by (auto split: sum.splits prod.splits)
  from Cons.prems(1,2) r
  have rr: "r \<noteq> [] \<and> row_ok r \<and> book_of_row (row_dict fieldnames r) = Inr b"
    by (intro record_row) simp_all
  from Cons.prems(1,2) rest have ih:
    "takeWhile row_ok (fst (write_rows fieldnames (map to_dict bs)))
           = fst (write_rows fieldnames (map to_dict bs)) \<and>
         list_all row_ok (fst (write_rows fieldnames (map to_dict bs))) \<and>
         map_err book_of_row
           (map (row_dict fieldnames)
              (filter (\<lambda>r. r \<noteq> []) (fst (write_rows fieldnames (map to_dict bs))))) = Inr bs"
    by (intro Cons.IH) simp_all
  show ?case
    unfolding f using rr ih by simp
qed

lemma open_w_cases: "open_w p w = (if p \<in> read_only w then Inl OSError else Inr ())"
  by (simp add: open_w_def)

text \<open>What \<open>save_library\<close> does for the two formats, case by case.\<close>

lemma save_library_json:
  "save_library ''json'' L w =
     (if json_filename L \<in> read_only w
      then (False, L, showerror ''Failed to save library''
                        (Some (PyException ''JSON save error'' OSError)) w)
      else if dump_ok (map to_dict (books L))
      then (True, L, write_file (json_filename L) (json_dump (map to_dict (books L))) w)
      else (False, L, showerror ''Failed to save library''
                        (Some (PyException ''JSON save error'' ValueError))
                        (write_file (json_filename L) (json_dump (map to_dict (books L))) w)))"
  by (simp add: save_library_def save_to_json_def open_w_def)


lemma save_library_store: "fst (snd (save_library format L w)) = L"
  by (simp add: save_library_def save_to_json_def save_to_csv_def open_w_def
      split: option.splits)

lemma files_write_file: "files (write_file p f w) p = Some f"
  by (simp add: write_file_def)

lemma open_r_written: "open_r p (write_file p f w) = Inr f"
  by (simp add: open_r_def write_file_def)

lemma path_exists_written: "path_exists p (write_file p f w)"
  by (simp add: path_exists_def write_file_def)

lemma json_load_dump:
  "json_load (json_dump ds) =
     (if dump_ok ds then Inr (PyList (map PyDict ds)) else Inl JSONDecodeError)"
  by (simp add: json_load_def json_dump_def dump_ok_def list_all_iff)

lemma read_json_books_written:
  "read_json_books p (write_file p (json_dump (map to_dict bs)) w) =
     (if dump_ok (map to_dict bs) then Inr bs else Inl JSONDecodeError)"
  by (simp add: read_json_books_def open_r_written json_load_dump map_err_from_dict)

lemma save_json_failure:
  assumes "snd (snd (save_library ''json'' L w)) = w'"
  shows "(json_filename L \<in> read_only w \<longrightarrow> files w' = files w) \<and>
         (json_filename L \<notin> read_only w \<and> \<not> dump_ok (map to_dict (books L)) \<longrightarrow>
            read_json_books (json_filename L) w' = Inl JSONDecodeError)"
proof (intro conjI impI)
  assume "json_filename L \<in> read_only w"
  with assms show "files w' = files w"
    by (auto simp: save_library_json showerror_def)
next
  assume bad: "json_filename L \<notin> read_only w \<and> \<not> dump_ok (map to_dict (books L))"
  with assms have "w' = showerror ''Failed to save library''
      (Some (PyException ''JSON save error'' ValueError))
      (write_file (json_filename L) (json_dump (map to_dict (books L))) w)"
    by (auto simp: save_library_json)
  then have "read_json_books (json_filename L) w'
      = read_json_books (json_filename L)
          (write_file (json_filename L) (json_dump (map to_dict (books L))) w)"
    by (simp add: read_json_books_def open_r_def showerror_def)
  with bad show "read_json_books (json_filename L) w' = Inl JSONDecodeError"
    by (simp only: read_json_books_written if_False)
qed

lemma read_csv_books_written:
  assumes "list_all is_record bs"
    and "list_all (\<lambda>b. str_len (title b) \<le> field_limit \<and> str_len (author b) \<le> field_limit \<and>
                        str_len (genre b) \<le> field_limit) bs"
    and "snd (write_rows fieldnames (map to_dict bs)) = None"
  shows "read_csv_books p (write_file p (csv_dump fieldnames (map to_dict bs)) w) = Inr bs"
proof -
  let ?rs = "fst (write_rows fieldnames (map to_dict bs))"
  from records_read_back [OF assms] have tw: "takeWhile row_ok ?rs = ?rs"
    and la: "list_all row_ok ?rs"
    and me: "map_err book_of_row (map (row_dict fieldnames) (filter (\<lambda>r. r \<noteq> []) ?rs)) = Inr bs"
    by blast+
  have "takeWhile row_ok (fieldnames # ?rs) = fieldnames # ?rs"
    by (simp only: takeWhile.simps row_ok_fieldnames if_True tw)
  moreover have "list_all row_ok (fieldnames # ?rs)"
    using la by (simp add: row_ok_fieldnames)
  ultimately show ?thesis
    by (simp only: read_csv_books_def open_r_written csv_rows_def csv_dump_def
        textfile.simps option.case bind_err.simps dict_reader.simps me if_True)
qed

lemma nat_digits_length: "length (nat_digits n) \<le> Suc n"
proof (induction n rule: nat_digits.induct)
  case (1 n)
  show ?case
  proof (cases "n < 10")
    case True
    then show ?thesis by (simp add: nat_digits.simps [of n])
  next
    case False
    with "1.IH" have "length (nat_digits (n div 10)) \<le> Suc (n div 10)" by simp
    moreover from False have "Suc (n div 10) < n" by arith
    ultimately show ?thesis using False by (simp add: nat_digits.simps [of n])
  qed
qed

lemma int_ok_small: "abs i < 4300 \<Longrightarrow> int_ok i"
  using nat_digits_length [of "nat (abs i)"] by (simp add: int_ok_def max_str_digits_def)

lemma example_books_ok: "dump_ok (map to_dict [dune, foundation])"
  "dump_ok (map to_dict [foundation])" "dump_ok (map to_dict [dune])"
  "dump_ok (map to_dict [dune, foundation, dune])" "dump_ok (map to_dict [foundation, emma, dune])"
  "dump_ok (map to_dict [dune, foundation, emma])"
  unfolding dump_ok_to_dict
  by (simp_all add: dune_def foundation_def emma_def int_ok_small)

lemma write_rows_records:
  "list_all is_record bs \<Longrightarrow>
   (snd (write_rows fieldnames (map to_dict bs)) = None) = list_all (\<lambda>b. ints_ok (year b)) bs"
proof (induction bs)
  case Nil
  show ?case by simp
next
  case (Cons b bs)
  from Cons.prems obtain t a g y
    where b: "b = \<lparr>title = PyStr t, author = PyStr a, genre = PyStr g, year = PyInt y\<rparr>"
    by (auto elim: is_record_cases)
  from Cons.prems have "list_all is_record bs" by simp
  from Cons.IH [OF this] show ?case
    by (cases "write_rows fieldnames (map to_dict bs)") (auto simp: b csv_row_of_record)
qed









lemma py_lower_is_str: "is_str v \<Longrightarrow> \<exists>s. py_lower v = Inr s"
  by (cases v) simp_all

lemma find_title_typed:
  "\<forall>b \<in> set bs. is_str (title b) \<Longrightarrow>
   find_title t bs i =
     (if \<exists>b \<in> set bs. py_lower (title b) = Inr (str_lower t)
      then Inr (Some (i + length (takeWhile (\<lambda>b. py_lower (title b) \<noteq> Inr (str_lower t)) bs)))
      else Inr None)"
proof (induction bs arbitrary: i)
  case Nil
  then show ?case by simp
next
  case (Cons b bs)
  from Cons.prems obtain s where s: "py_lower (title b) = Inr s"
    using py_lower_is_str [of "title b"] by auto
  from Cons.prems have "\<forall>b \<in> set bs. is_str (title b)" by simp
  then show ?case
    using Cons.IH [of "Suc i"] s by auto
qed

lemma find_title_Some:
  "find_title t bs i = Inr (Some k) \<Longrightarrow>
   i \<le> k \<and> k - i < length bs \<and> py_lower (title (bs ! (k - i))) = Inr (str_lower t) \<and>
   (\<forall>j < k - i. py_lower (title (bs ! j)) \<noteq> Inr (str_lower t))"
proof (induction bs arbitrary: i)
  case Nil
  then show ?case by simp
next
  case (Cons b bs)
  show ?case
  proof (cases "py_lower (title b)")
    case (Inl e)
    with Cons.prems show ?thesis by simp
  next
    case (Inr s)
    show ?thesis
    proof (cases "s = str_lower t")
      case True
      with Inr Cons.prems show ?thesis by simp
    next
      case False
      with Inr Cons.prems have f: "find_title t bs (Suc i) = Inr (Some k)" by simp
      from Cons.IH [OF f] have ih: "Suc i \<le> k" "k - Suc i < length bs"
        "py_lower (title (bs ! (k - Suc i))) = Inr (str_lower t)"
        "\<forall>j < k - Suc i. py_lower (title (bs ! j)) \<noteq> Inr (str_lower t)"
        by simp_all
      from ih(1) have k: "k - i = Suc (k - Suc i)" by arith
      have "\<forall>j < k - i. py_lower (title ((b # bs) ! j)) \<noteq> Inr (str_lower t)"
      proof (intro allI impI)
        fix j assume "j < k - i"
        then show "py_lower (title ((b # bs) ! j)) \<noteq> Inr (str_lower t)"
          using ih(4) Inr False k by (cases j) auto
      qed
      with ih k show ?thesis by simp
    qed
  qed
qed

lemma remove_book_cases:
  "remove_book t L w =
     (case find_title t (books L) 0 of
        Inl e \<Rightarrow> (Inl e, L, w)
      | Inr None \<Rightarrow> (Inr False, L, w)
      | Inr (Some i) \<Rightarrow>
          (Inr True, snd (save_library ''json'' (L\<lparr>books := take i (books L) @ drop (Suc i) (books L)\<rparr>) w)))"
  by (simp add: remove_book_def split: sum.splits option.splits prod.splits)

lemma take_drop_first:
  "\<exists>b \<in> set bs. \<not> P b \<Longrightarrow>
   take (length (takeWhile P bs)) bs @ drop (Suc (length (takeWhile P bs))) bs
     = takeWhile P bs @ tl (dropWhile P bs)"
proof (induction bs)
  case Nil
  then show ?case by simp
next
  case (Cons b bs)
  then show ?case by (cases "P b") auto
qed

text \<open>
  Claim C5. On a collection whose titles are strings, \<open>remove_book\<close> compares the lowered
  titles with the lowered argument for equality. If some title matches, it returns
  \<open>True\<close>, the store is the old one without its first matching book, and
  \<open>save_library()\<close> has run on it: when the canonical JSON file can be opened for
  writing and no integer of the remaining books has more than 4300 digits, the world
  differs only in that file, which holds the remaining books, and reading it gives
  them back; when the file cannot be opened no file changes, and when an integer is
  too long the file is left with a text that is not a JSON document, the removal
  standing in both cases. If no title matches, it returns \<open>False\<close> without raising, and the store,
  the files and the dialogs are as before.
\<close>

theorem remove_book_first_match:
  assumes "list_all (\<lambda>b. is_str (title b)) (books L)"
  shows
    "(if \<exists>b \<in> set (books L). py_lower (title b) = Inr (str_lower t)
      then (let rest = takeWhile (\<lambda>b. py_lower (title b) \<noteq> Inr (str_lower t)) (books L)
                         @ tl (dropWhile (\<lambda>b. py_lower (title b) \<noteq> Inr (str_lower t)) (books L))
            in remove_book t L w = (Inr True, snd (save_library ''json'' (L\<lparr>books := rest\<rparr>) w)) \<and>
               fst (snd (remove_book t L w)) = L\<lparr>books := rest\<rparr> \<and>
               books (fst (snd (remove_book t L w))) = rest \<and>
               (json_filename L \<notin> read_only w \<longrightarrow>
                  files (snd (snd (remove_book t L w))) (json_filename L)
                    = Some (json_dump (map to_dict rest))) \<and>
               (json_filename L \<notin> read_only w \<and> dump_ok (map to_dict rest) \<longrightarrow>
                  snd (snd (remove_book t L w))
                    = write_file (json_filename L) (json_dump (map to_dict rest)) w \<and>
                  json_doc (json_dump (map to_dict rest))
                    = Some (PyList (map (\<lambda>b. PyDict [(''title'', title b), (''author'', author b),
                                                       (''genre'', genre b), (''year'', year b)]) rest)) \<and>
                  read_json_books (json_filename L) (snd (snd (remove_book t L w))) = Inr rest) \<and>
               (json_filename L \<in> read_only w \<longrightarrow>
                  files (snd (snd (remove_book t L w))) = files w) \<and>
               (json_filename L \<notin> read_only w \<and> \<not> dump_ok (map to_dict rest) \<longrightarrow>
                  read_json_books (json_filename L) (snd (snd (remove_book t L w)))
                    = Inl JSONDecodeError))
      else remove_book t L w = (Inr False, L, w))"
proof (cases "\<exists>b \<in> set (books L). py_lower (title b) = Inr (str_lower t)")
  case False
  with assms show ?thesis
    by (simp add: remove_book_cases find_title_typed list_all_iff)
next
  case True
  let ?P = "\<lambda>b. py_lower (title b) \<noteq> Inr (str_lower t)"
  let ?rest = "takeWhile ?P (books L) @ tl (dropWhile ?P (books L))"
  let ?w' = "write_file (json_filename L) (json_dump (map to_dict ?rest)) w"
  from True have "\<exists>b \<in> set (books L). \<not> ?P b" by simp
  then have td: "take (length (takeWhile ?P (books L))) (books L)
      @ drop (Suc (length (takeWhile ?P (books L)))) (books L) = ?rest"
    by (rule take_drop_first)
  from assms True have f: "find_title t (books L) 0 = Inr (Some (length (takeWhile ?P (books L))))"
    by (simp add: find_title_typed list_all_iff)
  have r: "remove_book t L w = (Inr True, snd (save_library ''json'' (L\<lparr>books := ?rest\<rparr>) w))"
    by (simp add: remove_book_cases f td)
  have st: "fst (snd (remove_book t L w)) = L\<lparr>books := ?rest\<rparr>"
    by (simp add: r save_library_store)
  then have bk: "books (fst (snd (remove_book t L w))) = ?rest"
    by simp
  have fl: "json_filename L \<notin> read_only w \<longrightarrow>
      files (snd (snd (remove_book t L w))) (json_filename L) = Some (json_dump (map to_dict ?rest))"
    by (simp add: r save_library_json write_file_def showerror_def)
  have ps: "json_filename L \<notin> read_only w \<and> dump_ok (map to_dict ?rest) \<longrightarrow>
      snd (snd (remove_book t L w)) = ?w' \<and>
      json_doc (json_dump (map to_dict ?rest))
        = Some (PyList (map (\<lambda>b. PyDict [(''title'', title b), (''author'', author b),
                                           (''genre'', genre b), (''year'', year b)]) ?rest)) \<and>
      read_json_books (json_filename L) (snd (snd (remove_book t L w))) = Inr ?rest"
  proof (intro impI)
    assume a: "json_filename L \<notin> read_only w \<and> dump_ok (map to_dict ?rest)"
    then have w': "snd (snd (remove_book t L w)) = ?w'"
      by (simp add: r save_library_json)
    moreover from a have "json_doc (json_dump (map to_dict ?rest))
        = Some (PyList (map (\<lambda>b. PyDict [(''title'', title b), (''author'', author b),
                                           (''genre'', genre b), (''year'', year b)]) ?rest))"
      by (simp add: json_dump_def to_dict_def comp_def)
    moreover from a have "read_json_books (json_filename L) (snd (snd (remove_book t L w))) = Inr ?rest"
      unfolding w' by (simp only: read_json_books_written if_True)
    ultimately show "snd (snd (remove_book t L w)) = ?w' \<and>
      json_doc (json_dump (map to_dict ?rest))
        = Some (PyList (map (\<lambda>b. PyDict [(''title'', title b), (''author'', author b),
                                           (''genre'', genre b), (''year'', year b)]) ?rest)) \<and>
      read_json_books (json_filename L) (snd (snd (remove_book t L w))) = Inr ?rest"
      by blast
  qed
  have "snd (snd (save_library ''json'' (L\<lparr>books := ?rest\<rparr>) w)) = snd (snd (remove_book t L w))"
    by (simp add: r)
  from save_json_failure [OF this]
  have fa: "(json_filename L \<in> read_only w \<longrightarrow> files (snd (snd (remove_book t L w))) = files w) \<and>
      (json_filename L \<notin> read_only w \<and> \<not> dump_ok (map to_dict ?rest) \<longrightarrow>
         read_json_books (json_filename L) (snd (snd (remove_book t L w))) = Inl JSONDecodeError)"
    by simp
  from True r st bk fl ps fa show ?thesis
    by (simp only: if_True Let_def)
qed

theorem remove_book_first_match_witness:
  "list_all (\<lambda>b. is_str (title b)) (books shelf) \<and>
   remove_book ''DUNE'' shelf no_files =
     (Inr True, shelf\<lparr>books := [foundation]\<rparr>,
      write_file ''library_data.json'' (json_dump (map to_dict [foundation])) no_files) \<and>
   json_dump (map to_dict [foundation]) =
     \<lparr>json_doc = Some (PyList [PyDict [(''title'', PyStr ''Foundation''),
                                       (''author'', PyStr ''Isaac Asimov''),
                                       (''genre'', PyStr ''Sci-Fi''), (''year'', PyInt 1951)]]),
      csv_doc = Some [[''[''], [''  {'']]\<rparr> \<and>
   read_json_books ''library_data.json''
       (write_file ''library_data.json'' (json_dump (map to_dict [foundation])) no_files)
     = Inr [foundation] \<and>
   remove_book ''DUNE'' (shelf\<lparr>books := [foundation]\<rparr>)
       (write_file ''library_data.json'' (json_dump (map to_dict [foundation])) no_files) =
     (Inr False, shelf\<lparr>books := [foundation]\<rparr>,
      write_file ''library_data.json'' (json_dump (map to_dict [foundation])) no_files)"
proof -
  let ?w = "write_file ''library_data.json'' (json_dump (map to_dict [foundation])) no_files"
  let ?P = "\<lambda>b. py_lower (title b) \<noteq> Inr (str_lower ''DUNE'')"
  have t: "list_all (\<lambda>b. is_str (title b)) (books shelf)"
    "list_all (\<lambda>b. is_str (title b)) (books (shelf\<lparr>books := [foundation]\<rparr>))"
    by (simp_all add: shelf_def dune_def foundation_def)
  have l: "str_lower ''DUNE'' = ''dune''" "str_lower ''Dune'' = ''dune''"
    "str_lower ''Foundation'' = ''foundation''"
    by code_simp+
  have p: "\<not> ?P dune" "?P foundation"
    by (simp_all add: dune_def foundation_def l)
  have b: "books shelf = [dune, foundation]" and jf: "json_filename shelf = ''library_data.json''"
    by (simp_all add: shelf_def)
  have m1: "\<exists>b \<in> set (books shelf). py_lower (title b) = Inr (str_lower ''DUNE'')"
    using p by (simp add: b)
  have m2: "\<not> (\<exists>b \<in> set (books (shelf\<lparr>books := [foundation]\<rparr>)).
      py_lower (title b) = Inr (str_lower ''DUNE''))"
    using p by simp
  have r: "takeWhile ?P (books shelf) @ tl (dropWhile ?P (books shelf)) = [foundation]"
    using p by (simp add: b)
  have ok: "json_filename shelf \<notin> read_only no_files \<and> dump_ok (map to_dict [foundation])"
    using example_books_ok(2) by (simp add: no_files_def)
  note th = remove_book_first_match [OF t(1), of "''DUNE''" no_files, unfolded Let_def r]
  note th' = th [unfolded if_P [OF m1]]
  from th' have "remove_book ''DUNE'' shelf no_files
      = (Inr True, snd (save_library ''json'' (shelf\<lparr>books := [foundation]\<rparr>) no_files))"
    by blast
  then have rt: "fst (remove_book ''DUNE'' shelf no_files) = Inr True"
    by simp
  from th' ok have st: "fst (snd (remove_book ''DUNE'' shelf no_files)) = shelf\<lparr>books := [foundation]\<rparr>"
    and wd: "snd (snd (remove_book ''DUNE'' shelf no_files))
        = write_file (json_filename shelf) (json_dump (map to_dict [foundation])) no_files"
    and rb: "read_json_books (json_filename shelf) (snd (snd (remove_book ''DUNE'' shelf no_files)))
        = Inr [foundation]"
    by blast+
  have one: "remove_book ''DUNE'' shelf no_files = (Inr True, shelf\<lparr>books := [foundation]\<rparr>, ?w)"
    using st wd rt by (simp add: jf prod_eq_iff)
  have rd: "read_json_books ''library_data.json'' ?w = Inr [foundation]"
    using rb wd by (simp add: jf)
  have doc: "json_dump (map to_dict [foundation]) =
     \<lparr>json_doc = Some (PyList [PyDict [(''title'', PyStr ''Foundation''),
                                       (''author'', PyStr ''Isaac Asimov''),
                                       (''genre'', PyStr ''Sci-Fi''), (''year'', PyInt 1951)]]),
      csv_doc = Some [[''[''], [''  {'']]\<rparr>"
    using example_books_ok(2) by (simp add: json_dump_def to_dict_def foundation_def)
  have two: "remove_book ''DUNE'' (shelf\<lparr>books := [foundation]\<rparr>) ?w
      = (Inr False, shelf\<lparr>books := [foundation]\<rparr>, ?w)"
    using remove_book_first_match [OF t(2), of "''DUNE''" ?w] m2
    by (simp only: if_False)
  from t(1) one doc rd two show ?thesis by blast
qed

text \<open>
  Claim C10. Whenever \<open>remove_book\<close> returns \<open>True\<close> it has deleted exactly one book,
  the first whose lowered title equals the lowered argument: the collection is one
  shorter, the books before that position are where they were, and every later book,
  a later one with the same title included, has moved up by one place, in the same order.
\<close>

theorem remove_book_removes_one:
  assumes "remove_book t L w = (Inr True, L', w')"
  shows "\<exists>i < length (books L).
           py_lower (title (books L ! i)) = Inr (str_lower t) \<and>
           (\<forall>j < i. py_lower (title (books L ! j)) \<noteq> Inr (str_lower t)) \<and>
           books L' = take i (books L) @ drop (Suc i) (books L) \<and>
           Suc (length (books L')) = length (books L) \<and>
           (\<forall>j < i. books L' ! j = books L ! j) \<and>
           (\<forall>j. i \<le> j \<and> j < length (books L') \<longrightarrow> books L' ! j = books L ! Suc j)"
proof -
  from assms obtain i where f: "find_title t (books L) 0 = Inr (Some i)"
    by (auto simp: remove_book_cases split: sum.splits option.splits)
  from find_title_Some [OF f] have i: "i < length (books L)"
    and m: "py_lower (title (books L ! i)) = Inr (str_lower t)"
    and first: "\<forall>j < i. py_lower (title (books L ! j)) \<noteq> Inr (str_lower t)"
    by simp_all
  from assms f have "L' = fst (snd (save_library ''json''
      (L\<lparr>books := take i (books L) @ drop (Suc i) (books L)\<rparr>) w))"
    by (simp add: remove_book_cases)
  then have b: "books L' = take i (books L) @ drop (Suc i) (books L)"
    by (simp add: save_library_store)
  from i have len: "Suc (length (books L')) = length (books L)"
    by (simp add: b)
  have before: "\<forall>j < i. books L' ! j = books L ! j"
    using i by (simp add: b nth_append)
  have after: "\<forall>j. i \<le> j \<and> j < length (books L') \<longrightarrow> books L' ! j = books L ! Suc j"
  proof (intro allI impI)
    fix j assume j: "i \<le> j \<and> j < length (books L')"
    with i len have "Suc i + (j - i) = Suc j" "Suc j \<le> length (books L)" by arith+
    with i j show "books L' ! j = books L ! Suc j"
      by (simp add: b nth_append min_def)
  qed
  from i m first b len before after show ?thesis by blast
qed

theorem remove_book_removes_one_witness:
  "remove_book ''dune'' (shelf\<lparr>books := [foundation, dune, emma, dune]\<rparr>) no_files =
     (Inr True, shelf\<lparr>books := [foundation, emma, dune]\<rparr>,
      write_file ''library_data.json'' (json_dump (map to_dict [foundation, emma, dune])) no_files) \<and>
   (\<exists>i < length [foundation, dune, emma, dune].
      py_lower (title ([foundation, dune, emma, dune] ! i)) = Inr (str_lower ''dune'') \<and>
      [foundation, emma, dune]
        = take i [foundation, dune, emma, dune] @ drop (Suc i) [foundation, dune, emma, dune])"
proof -
  let ?w = "write_file ''library_data.json'' (json_dump (map to_dict [foundation, emma, dune])) no_files"
  have l: "str_lower ''dune'' = ''dune''" "str_lower ''Dune'' = ''dune''"
    "str_lower ''Foundation'' = ''foundation''" "str_lower ''Emma'' = ''emma''"
    by code_simp+
  have f: "find_title ''dune'' [foundation, dune, emma, dune] 0 = Inr (Some 1)"
    by (simp add: dune_def foundation_def emma_def l)
  have s: "save_library ''json'' (shelf\<lparr>books := [foundation, emma, dune]\<rparr>) no_files
      = (True, shelf\<lparr>books := [foundation, emma, dune]\<rparr>, ?w)"
    using example_books_ok(5) by (simp add: save_library_json shelf_def no_files_def)
  have r: "remove_book ''dune'' (shelf\<lparr>books := [foundation, dune, emma, dune]\<rparr>) no_files
      = (Inr True, shelf\<lparr>books := [foundation, emma, dune]\<rparr>, ?w)"
  proof -
    have "find_title ''dune'' (books (shelf\<lparr>books := [foundation, dune, emma, dune]\<rparr>)) 0
        = Inr (Some 1)"
      using f by simp
    then show ?thesis
      by (simp add: remove_book_cases s del: find_title.simps)
  qed
  from remove_book_removes_one [OF r] obtain i where
    "i < length [foundation, dune, emma, dune]"
    "py_lower (title ([foundation, dune, emma, dune] ! i)) = Inr (str_lower ''dune'')"
    "[foundation, emma, dune]
       = take i [foundation, dune, emma, dune] @ drop (Suc i) [foundation, dune, emma, dune]"
    by auto
  with r show ?thesis by blast
qed

lemma starts_with_prefix: "starts_with s q \<longleftrightarrow> prefix q s"
  by (induction s q rule: starts_with.induct) auto

lemma str_contains_sublist: "str_contains s q \<longleftrightarrow> (\<exists>p r. s = p @ q @ r)"
proof -
  have "str_contains s q \<longleftrightarrow> sublist q s"
    by (induction s) (simp_all add: sublist_Cons_right starts_with_prefix)
  then show ?thesis by (simp add: sublist_def)
qed

lemma str_contains_empty: "str_contains s []"
  by (cases s) simp_all

lemma book_matches_typed:
  "book_matches q \<lparr>title = PyStr t, author = PyStr a, genre = PyStr g, year = y\<rparr> =
     Inr (str_contains (str_lower t) q \<or> str_contains (str_lower a) q \<or> str_contains (str_lower g) q)"
  by (simp add: book_matches_def)

lemma book_matches_strs:
  assumes "is_str (title b)" "is_str (author b)" "is_str (genre b)"
  shows "book_matches q b =
     Inr (\<exists>s p r. (title b = PyStr s \<or> author b = PyStr s \<or> genre b = PyStr s) \<and>
                   str_lower s = p @ q @ r)"
proof -
  from assms obtain t a g where
    f: "title b = PyStr t" "author b = PyStr a" "genre b = PyStr g"
    by (blast dest: is_str_PyStr)
  then have b: "b = \<lparr>title = PyStr t, author = PyStr a, genre = PyStr g, year = year b\<rparr>"
    by (cases b) simp
  have "book_matches q b =
      Inr (str_contains (str_lower t) q \<or> str_contains (str_lower a) q \<or> str_contains (str_lower g) q)"
    by (subst b) (rule book_matches_typed)
  moreover have "(str_contains (str_lower t) q \<or> str_contains (str_lower a) q \<or> str_contains (str_lower g) q)
      \<longleftrightarrow> (\<exists>s p r. (title b = PyStr s \<or> author b = PyStr s \<or> genre b = PyStr s) \<and>
                   str_lower s = p @ q @ r)"
    unfolding str_contains_sublist f by blast
  ultimately show ?thesis by simp
qed

lemma search_loop_typed:
  "list_all (\<lambda>b. is_str (title b) \<and> is_str (author b) \<and> is_str (genre b)) bs \<Longrightarrow>
   search_loop q bs acc =
     Inr (acc @ filter (\<lambda>b. \<exists>s p r. (title b = PyStr s \<or> author b = PyStr s \<or> genre b = PyStr s) \<and>
                                  str_lower s = p @ q @ r) bs)"
proof (induction bs arbitrary: acc)
  case Nil
  then show ?case by simp
next
  case (Cons b bs)
  from Cons.prems have m: "book_matches q b =
     Inr (\<exists>s p r. (title b = PyStr s \<or> author b = PyStr s \<or> genre b = PyStr s) \<and>
                   str_lower s = p @ q @ r)"
    by (simp add: book_matches_strs)
  from Cons.prems have "list_all (\<lambda>b. is_str (title b) \<and> is_str (author b) \<and> is_str (genre b)) bs"
    by simp
  note ih = Cons.IH [OF this]
  show ?case
    by (simp only: search_loop.simps m sum.case ih filter.simps split: if_splits) simp
qed

lemma str_lower_empty: "str_lower [] = []"
  by (simp add: str_lower_def)

text \<open>
  Claim C6. On a collection whose titles, authors and genres are strings, \<open>search_books\<close>
  returns, in collection order, exactly the books of which the lowered title, author or
  genre contains the lowered query as a contiguous block; the store and the world are
  unchanged. For the empty query the result is the whole collection.
\<close>

theorem search_books_filter:
  assumes "list_all (\<lambda>b. is_str (title b) \<and> is_str (author b) \<and> is_str (genre b)) (books L)"
  shows "search_books query L w =
           (Inr (filter (\<lambda>b. \<exists>s p r. (title b = PyStr s \<or> author b = PyStr s \<or> genre b = PyStr s) \<and>
                                     str_lower s = p @ str_lower query @ r) (books L)), L, w) \<and>
         search_books [] L w = (Inr (books L), L, w)"
proof
  show "search_books query L w =
      (Inr (filter (\<lambda>b. \<exists>s p r. (title b = PyStr s \<or> author b = PyStr s \<or> genre b = PyStr s) \<and>
                                str_lower s = p @ str_lower query @ r) (books L)), L, w)"
    using assms by (simp add: search_books_def search_loop_typed)
  have "filter (\<lambda>b. \<exists>s p r. (title b = PyStr s \<or> author b = PyStr s \<or> genre b = PyStr s) \<and>
                                str_lower s = p @ [] @ r) (books L) = books L"
  proof (rule filter_True, intro ballI)
    fix b assume "b \<in> set (books L)"
    with assms have "is_str (title b)" by (simp add: list_all_iff)
    then obtain s where "title b = PyStr s" by (blast dest: is_str_PyStr)
    then show "\<exists>s p r. (title b = PyStr s \<or> author b = PyStr s \<or> genre b = PyStr s) \<and>
                                str_lower s = p @ [] @ r"
      by (intro exI [of _ s] exI [of _ "[]"] exI [of _ "str_lower s"]) simp
  qed
  with assms show "search_books [] L w = (Inr (books L), L, w)"
    by (simp add: search_books_def search_loop_typed str_lower_empty)
qed


theorem search_books_filter_witness:
  "list_all (\<lambda>b. is_str (title b) \<and> is_str (author b) \<and> is_str (genre b)) (books shelf) \<and>
   search_books ''dune'' shelf no_files = (Inr [dune], shelf, no_files) \<and>
   search_books ''sci-fi'' shelf no_files = (Inr [dune, foundation], shelf, no_files) \<and>
   search_books [] shelf no_files = (Inr [dune, foundation], shelf, no_files) \<and>
   filter (\<lambda>b. \<exists>s p r. (title b = PyStr s \<or> author b = PyStr s \<or> genre b = PyStr s) \<and>
                        str_lower s = p @ str_lower ''dune'' @ r) (books shelf) = [dune]"
proof -
  have t: "list_all (\<lambda>b. is_str (title b) \<and> is_str (author b) \<and> is_str (genre b)) (books shelf)"
    by (simp add: shelf_def dune_def foundation_def)
  have l: "str_lower ''dune'' = ''dune''" "str_lower ''sci-fi'' = ''sci-fi''"
    "str_lower ''Dune'' = ''dune''" "str_lower ''Frank Herbert'' = ''frank herbert''"
    "str_lower ''Sci-Fi'' = ''sci-fi''" "str_lower ''Foundation'' = ''foundation''"
    "str_lower ''Isaac Asimov'' = ''isaac asimov''"
    by code_simp+
  have d: "search_books ''dune'' shelf no_files = (Inr [dune], shelf, no_files)"
    by (simp add: search_books_def shelf_def dune_def foundation_def book_matches_def l)
  have g: "search_books ''sci-fi'' shelf no_files = (Inr [dune, foundation], shelf, no_files)"
    by (simp add: search_books_def shelf_def dune_def foundation_def book_matches_def l)
  have b: "books shelf = [dune, foundation]"
    by (simp add: shelf_def)
  from search_books_filter [OF t, of "''dune''" no_files] d
  have "filter (\<lambda>b. \<exists>s p r. (title b = PyStr s \<or> author b = PyStr s \<or> genre b = PyStr s) \<and>
                        str_lower s = p @ str_lower ''dune'' @ r) (books shelf) = [dune]"
    by simp
  moreover from search_books_filter [OF t, of "''dune''" no_files]
  have "search_books [] shelf no_files = (Inr [dune, foundation], shelf, no_files)"
    by (simp add: b)
  ultimately show ?thesis using t d g by simp
qed

text \<open>
  Claim C7. \<open>add_book\<close> appends the book, whether or not an equal book is already there:
  the store is the old one with the book as the new last element, one longer. It then
  calls \<open>save_library()\<close>: when the canonical JSON file can be opened for writing and no
  integer of the collection has more than 4300 digits, the world differs only in that
  file, which holds the whole new collection, and reading it gives the collection
  back. When the file cannot be opened no file changes; when an integer is too long the
  file is left with a text that is not a JSON document. In both cases the book stays
  appended.
\<close>

theorem add_book_appends:
  assumes "add_book book L w = (L', w')"
  shows "L' = L\<lparr>books := books L @ [book]\<rparr> \<and>
         books L' = books L @ [book] \<and>
         length (books L') = Suc (length (books L)) \<and>
         last (books L') = book \<and>
         json_filename L' = json_filename L \<and> csv_filename L' = csv_filename L \<and>
         (json_filename L \<notin> read_only w \<longrightarrow>
            files w' (json_filename L) = Some (json_dump (map to_dict (books L @ [book])))) \<and>
         (json_filename L \<notin> read_only w \<and> dump_ok (map to_dict (books L @ [book])) \<longrightarrow>
            w' = write_file (json_filename L) (json_dump (map to_dict (books L @ [book]))) w \<and>
            json_doc (json_dump (map to_dict (books L @ [book])))
              = Some (PyList (map (\<lambda>b. PyDict [(''title'', title b), (''author'', author b),
                                                 (''genre'', genre b), (''year'', year b)])
                                (books L @ [book]))) \<and>
            read_json_books (json_filename L) w' = Inr (books L @ [book])) \<and>
         (json_filename L \<in> read_only w \<longrightarrow> files w' = files w) \<and>
         (json_filename L \<notin> read_only w \<and> \<not> dump_ok (map to_dict (books L @ [book])) \<longrightarrow>
            read_json_books (json_filename L) w' = Inl JSONDecodeError)"
proof -
  let ?bs = "books L @ [book]"
  let ?f = "json_dump (map to_dict ?bs)"
  from assms have s: "snd (save_library ''json'' (L\<lparr>books := ?bs\<rparr>) w) = (L', w')"
    by (simp add: add_book_def)
  then have L': "L' = L\<lparr>books := ?bs\<rparr>"
    using save_library_store [of "''json''" "L\<lparr>books := ?bs\<rparr>" w] by simp
  have a: "json_filename L \<notin> read_only w \<longrightarrow> files w' (json_filename L) = Some ?f"
    using s by (auto simp: save_library_json write_file_def showerror_def split: if_splits)
  have b: "json_filename L \<notin> read_only w \<and> dump_ok (map to_dict ?bs) \<longrightarrow>
      w' = write_file (json_filename L) ?f w \<and>
      json_doc ?f = Some (PyList (map (\<lambda>b. PyDict [(''title'', title b), (''author'', author b),
                                                 (''genre'', genre b), (''year'', year b)]) ?bs)) \<and>
      read_json_books (json_filename L) w' = Inr ?bs"
  proof (intro impI)
    assume ok: "json_filename L \<notin> read_only w \<and> dump_ok (map to_dict ?bs)"
    with s have w': "w' = write_file (json_filename L) ?f w"
      by (simp add: save_library_json)
    moreover from ok have "json_doc ?f
        = Some (PyList (map (\<lambda>b. PyDict [(''title'', title b), (''author'', author b),
                                           (''genre'', genre b), (''year'', year b)]) ?bs))"
      by (simp add: json_dump_def to_dict_def comp_def)
    moreover from ok have "read_json_books (json_filename L) w' = Inr ?bs"
      unfolding w' by (simp only: read_json_books_written if_True)
    ultimately show "w' = write_file (json_filename L) ?f w \<and>
      json_doc ?f = Some (PyList (map (\<lambda>b. PyDict [(''title'', title b), (''author'', author b),
                                                 (''genre'', genre b), (''year'', year b)]) ?bs)) \<and>
      read_json_books (json_filename L) w' = Inr ?bs"
      by blast
  qed
  have c: "json_filename L \<in> read_only w \<longrightarrow> files w' = files w"
    using s by (auto simp: save_library_json showerror_def split: if_splits)
  have d: "json_filename L \<notin> read_only w \<and> \<not> dump_ok (map to_dict ?bs) \<longrightarrow>
      read_json_books (json_filename L) w' = Inl JSONDecodeError"
  proof (intro impI)
    assume bad: "json_filename L \<notin> read_only w \<and> \<not> dump_ok (map to_dict ?bs)"
    with s have "w' = showerror ''Failed to save library''
        (Some (PyException ''JSON save error'' ValueError)) (write_file (json_filename L) ?f w)"
      by (simp add: save_library_json)
    then have "read_json_books (json_filename L) w'
        = read_json_books (json_filename L) (write_file (json_filename L) ?f w)"
      by (simp add: read_json_books_def open_r_def showerror_def)
    with bad show "read_json_books (json_filename L) w' = Inl JSONDecodeError"
      by (simp only: read_json_books_written if_False)
  qed
  have "L' = L\<lparr>books := ?bs\<rparr> \<and> books L' = ?bs \<and>
      length (books L') = Suc (length (books L)) \<and> last (books L') = book \<and>
      json_filename L' = json_filename L \<and> csv_filename L' = csv_filename L"
    by (simp add: L')
  with a b c d show ?thesis by blast
qed

theorem add_book_appends_witness:
  "add_book dune shelf no_files =
     (shelf\<lparr>books := [dune, foundation, dune]\<rparr>,
      write_file ''library_data.json'' (json_dump (map to_dict [dune, foundation, dune])) no_files) \<and>
   json_filename shelf \<notin> read_only no_files \<and>
   dump_ok (map to_dict (books shelf @ [dune])) \<and>
   json_dump (map to_dict [dune, foundation, dune]) =
     \<lparr>json_doc = Some (PyList
        [PyDict [(''title'', PyStr ''Dune''), (''author'', PyStr ''Frank Herbert''),
                 (''genre'', PyStr ''Sci-Fi''), (''year'', PyInt 1965)],
         PyDict [(''title'', PyStr ''Foundation''), (''author'', PyStr ''Isaac Asimov''),
                 (''genre'', PyStr ''Sci-Fi''), (''year'', PyInt 1951)],
         PyDict [(''title'', PyStr ''Dune''), (''author'', PyStr ''Frank Herbert''),
                 (''genre'', PyStr ''Sci-Fi''), (''year'', PyInt 1965)]]),
      csv_doc = Some [[''[''], [''  {'']]\<rparr> \<and>
   read_json_books ''library_data.json''
       (write_file ''library_data.json'' (json_dump (map to_dict [dune, foundation, dune])) no_files)
     = Inr [dune, foundation, dune] \<and>
   last (books (shelf\<lparr>books := [dune, foundation, dune]\<rparr>)) = dune"
proof -
  let ?w = "write_file ''library_data.json'' (json_dump (map to_dict [dune, foundation, dune])) no_files"
  have b: "books shelf = [dune, foundation]" and jf: "json_filename shelf = ''library_data.json''"
    by (simp_all add: shelf_def)
  have n: "json_filename shelf \<notin> read_only no_files"
    by (simp add: no_files_def)
  have ok: "dump_ok (map to_dict (books shelf @ [dune]))"
    using example_books_ok(4) by (simp add: b)
  have a: "add_book dune shelf no_files = (shelf\<lparr>books := [dune, foundation, dune]\<rparr>, ?w)"
    using n ok by (simp add: add_book_def save_library_json b jf)
  from add_book_appends [OF a] n ok
  have rb: "read_json_books (json_filename shelf) ?w = Inr (books shelf @ [dune])"
    by blast
  have rd: "read_json_books ''library_data.json'' ?w = Inr [dune, foundation, dune]"
    using rb by (simp add: jf b)
  have doc: "json_dump (map to_dict [dune, foundation, dune]) =
     \<lparr>json_doc = Some (PyList
        [PyDict [(''title'', PyStr ''Dune''), (''author'', PyStr ''Frank Herbert''),
                 (''genre'', PyStr ''Sci-Fi''), (''year'', PyInt 1965)],
         PyDict [(''title'', PyStr ''Foundation''), (''author'', PyStr ''Isaac Asimov''),
                 (''genre'', PyStr ''Sci-Fi''), (''year'', PyInt 1951)],
         PyDict [(''title'', PyStr ''Dune''), (''author'', PyStr ''Frank Herbert''),
                 (''genre'', PyStr ''Sci-Fi''), (''year'', PyInt 1965)]]),
      csv_doc = Some [[''[''], [''  {'']]\<rparr>"
    using example_books_ok(4) by (simp add: json_dump_def to_dict_def dune_def foundation_def)
  have la: "last (books (shelf\<lparr>books := [dune, foundation, dune]\<rparr>)) = dune"
    by simp
  from a n ok doc rd la show ?thesis by blast
qed

text \<open>
  Claim C9. For a format other than \<open>'json'\<close> and \<open>'csv'\<close>, \<open>save_library\<close> returns \<open>False\<close>;
  no file is written, no dialog is shown and the store is unchanged. (The method returns
  a plain value: no exception leaves it.)
\<close>

theorem save_library_unknown_format:
  assumes "format \<noteq> ''json''" and "format \<noteq> ''csv''"
  shows "save_library format L w = (False, L, w)"
  using assms by (simp add: save_library_def)

theorem save_library_unknown_format_witness:
  "''xml'' \<noteq> ''json'' \<and> ''xml'' \<noteq> ''csv'' \<and> save_library ''xml'' shelf no_files = (False, shelf, no_files)"
proof -
  have h: "''xml'' \<noteq> ''json''" "''xml'' \<noteq> ''csv''" by simp_all
  from save_library_unknown_format [OF h, of shelf no_files] h show ?thesis by simp
qed

lemma import_library_cases:
  "import_library filename L w =
     (case import_parse filename w of
        None \<Rightarrow> (False, L, showerror ''Unsupported file format'' None w)
      | Some (Inl e) \<Rightarrow> (False, L, showerror ''Failed to import library'' (Some e) w)
      | Some (Inr temp_books) \<Rightarrow>
          (True, snd (save_library ''json'' (L\<lparr>books := books L @ temp_books\<rparr>) w)))"
  by (simp add: import_library_def split: option.splits sum.splits prod.splits)

lemma files_showerror: "files (showerror msg e w) = files w"
  by (simp add: showerror_def)

text \<open>
  Claim C3. \<open>import_library\<close> returns \<open>False\<close> in two cases only: the file name ends
  neither in \<open>.json\<close> nor in \<open>.csv\<close> (the dialog says the format is unsupported), or
  opening or parsing the file raised (the dialog reports the exception). In both cases
  the store, and so its collection, is the one before the call, and no file has changed.
\<close>

theorem import_failure_keeps_collection:
  "(\<not> endswith filename ''.json'' \<and> \<not> endswith filename ''.csv'' \<longrightarrow>
      import_library filename L w = (False, L, showerror ''Unsupported file format'' None w)) \<and>
   (import_parse filename w = Some (Inl e) \<longrightarrow>
      import_library filename L w = (False, L, showerror ''Failed to import library'' (Some e) w)) \<and>
   (import_library filename L w = (False, L', w') \<longrightarrow>
      L' = L \<and> files w' = files w \<and>
      (import_parse filename w = None \<or> (\<exists>x. import_parse filename w = Some (Inl x))))"
proof (intro conjI impI)
  assume "\<not> endswith filename ''.json'' \<and> \<not> endswith filename ''.csv''"
  then have "import_parse filename w = None"
    by (simp add: import_parse_def)
  then show "import_library filename L w = (False, L, showerror ''Unsupported file format'' None w)"
    by (simp add: import_library_cases)
next
  assume "import_parse filename w = Some (Inl e)"
  then show "import_library filename L w
      = (False, L, showerror ''Failed to import library'' (Some e) w)"
    by (simp add: import_library_cases)
next
  assume f: "import_library filename L w = (False, L', w')"
  then show "L' = L"
    by (auto simp: import_library_cases split: option.splits sum.splits)
  from f show "files w' = files w"
    by (auto simp: import_library_cases files_showerror split: option.splits sum.splits)
  from f show "import_parse filename w = None \<or> (\<exists>x. import_parse filename w = Some (Inl x))"
    by (auto simp: import_library_cases split: option.splits sum.splits)
qed

lemma endswith_examples:
  "\<not> endswith ''notes.txt'' ''.json''" "\<not> endswith ''notes.txt'' ''.csv''"
  "\<not> endswith ''old.csv'' ''.json''" "endswith ''old.csv'' ''.csv''"
  "\<not> endswith ''padded.csv'' ''.json''" "endswith ''padded.csv'' ''.csv''"
  "\<not> endswith ''extra.csv'' ''.json''" "endswith ''extra.csv'' ''.csv''"
  by (simp_all add: endswith_def)

lemma bind_err_Inr: "bind_err x Inr = x"
  by (cases x) simp_all

lemma read_csv_books_rows:
  assumes "files w p = Some f" and "csv_doc f = Some rows" and "list_all row_ok rows"
  shows "read_csv_books p w = map_err book_of_row (dict_reader rows)"
proof -
  from assms(3) have tw: "takeWhile row_ok rows = rows"
    by (simp add: takeWhile_eq_all_conv list_all_iff)
  from assms show ?thesis
    by (simp add: read_csv_books_def open_r_def csv_rows_def bind_err_Inr tw)
qed

lemma import_parse_old_csv:
  "import_parse ''old.csv'' (write_file ''old.csv'' old_csv no_files) = Some (Inl ValueError)"
proof -
  have i: "int_of_str ''MDCCCXV'' = Inl ValueError"
    by code_simp
  have b: "book_of_row (row_dict [''title'', ''author'', ''genre'', ''year'']
                 [''Emma'', ''Jane Austen'', ''Novel'', ''MDCCCXV'']) = Inl ValueError"
    by (simp add: book_of_row_def row_dict_def row_getitem_def py_int_def i)
  have "read_csv_books ''old.csv'' (write_file ''old.csv'' old_csv no_files)
      = map_err book_of_row (dict_reader [[''title'', ''author'', ''genre'', ''year''],
                 [''Emma'', ''Jane Austen'', ''Novel'', ''MDCCCXV'']])"
    by (rule read_csv_books_rows [where f = old_csv])
      (simp_all add: files_write_file old_csv_def row_ok_def field_limit_def)
  then have "read_csv_books ''old.csv'' (write_file ''old.csv'' old_csv no_files) = Inl ValueError"
    by (simp add: b)
  then show ?thesis
    by (simp add: import_parse_def endswith_examples)
qed

lemma import_parse_padded_csv:
  "import_parse ''padded.csv'' (write_file ''padded.csv'' padded_csv no_files) = Some (Inl ValueError)"
proof -
  have i: "int_of_str (char_of (31 :: nat) # ''1815'') = Inl ValueError"
    by code_simp
  have b: "book_of_row (row_dict [''title'', ''author'', ''genre'', ''year'']
                 [''Emma'', ''Jane Austen'', ''Novel'', char_of (31 :: nat) # ''1815'']) = Inl ValueError"
    by (simp add: book_of_row_def row_dict_def row_getitem_def py_int_def i)
  have "read_csv_books ''padded.csv'' (write_file ''padded.csv'' padded_csv no_files)
      = map_err book_of_row (dict_reader [[''title'', ''author'', ''genre'', ''year''],
                 [''Emma'', ''Jane Austen'', ''Novel'', char_of (31 :: nat) # ''1815'']])"
    by (rule read_csv_books_rows [where f = padded_csv])
      (simp_all add: files_write_file padded_csv_def row_ok_def field_limit_def)
  then have "read_csv_books ''padded.csv'' (write_file ''padded.csv'' padded_csv no_files)
      = Inl ValueError"
    by (simp add: b)
  then show ?thesis
    by (simp add: import_parse_def endswith_examples)
qed

theorem import_failure_keeps_collection_witness:
  "\<not> endswith ''notes.txt'' ''.json'' \<and> \<not> endswith ''notes.txt'' ''.csv'' \<and>
   import_library ''notes.txt'' shelf no_files
     = (False, shelf, showerror ''Unsupported file format'' None no_files) \<and>
   import_parse ''old.csv'' (write_file ''old.csv'' old_csv no_files) = Some (Inl ValueError) \<and>
   import_library ''old.csv'' shelf (write_file ''old.csv'' old_csv no_files)
     = (False, shelf,
        showerror ''Failed to import library'' (Some ValueError)
          (write_file ''old.csv'' old_csv no_files)) \<and>
   import_parse ''padded.csv'' (write_file ''padded.csv'' padded_csv no_files)
     = Some (Inl ValueError) \<and>
   import_library ''padded.csv'' shelf (write_file ''padded.csv'' padded_csv no_files)
     = (False, shelf,
        showerror ''Failed to import library'' (Some ValueError)
          (write_file ''padded.csv'' padded_csv no_files))"
proof -
  let ?w = "write_file ''old.csv'' old_csv no_files"
  let ?v = "write_file ''padded.csv'' padded_csv no_files"
  have e: "\<not> endswith ''notes.txt'' ''.json'' \<and> \<not> endswith ''notes.txt'' ''.csv''"
    by (simp add: endswith_examples)
  note p = import_parse_old_csv
  note q = import_parse_padded_csv
  from import_failure_keeps_collection
    [where filename = "''notes.txt''" and L = shelf and w = no_files] e
  have a: "import_library ''notes.txt'' shelf no_files
     = (False, shelf, showerror ''Unsupported file format'' None no_files)"
    by blast
  from import_failure_keeps_collection
    [where filename = "''old.csv''" and L = shelf and w = ?w and e = ValueError] p
  have b: "import_library ''old.csv'' shelf ?w
     = (False, shelf, showerror ''Failed to import library'' (Some ValueError) ?w)"
    by blast
  from import_failure_keeps_collection
    [where filename = "''padded.csv''" and L = shelf and w = ?v and e = ValueError] q
  have c: "import_library ''padded.csv'' shelf ?v
     = (False, shelf, showerror ''Failed to import library'' (Some ValueError) ?v)"
    by blast
  from e p a b q c show ?thesis by blast
qed

text \<open>
  Claim C4. When the file parses into a list of books, \<open>import_library\<close> returns \<open>True\<close>,
  the store is the old one with those books appended, and \<open>save_library()\<close> has run on
  the merged store: when the canonical JSON file can be opened for writing and no
  integer of the merged collection has more than 4300 digits, the world differs only in
  that file, which holds the merged collection, and reading it gives the merged
  collection back; when the file cannot be opened no file changes, and when an integer
  is too long the file is left with a text that is not a JSON document, the books
  staying appended in both cases. Conversely a result of \<open>True\<close> only comes from a
  successful parse, with the parsed books appended.
\<close>

theorem import_appends_and_persists:
  "(import_parse filename w = Some (Inr temp_books) \<longrightarrow>
      import_library filename L w
        = (True, snd (save_library ''json'' (L\<lparr>books := books L @ temp_books\<rparr>) w)) \<and>
      fst (snd (import_library filename L w)) = L\<lparr>books := books L @ temp_books\<rparr> \<and>
      books (fst (snd (import_library filename L w))) = books L @ temp_books \<and>
      (json_filename L \<notin> read_only w \<and> dump_ok (map to_dict (books L @ temp_books)) \<longrightarrow>
         snd (snd (import_library filename L w))
           = write_file (json_filename L) (json_dump (map to_dict (books L @ temp_books))) w \<and>
         files (snd (snd (import_library filename L w))) (json_filename L)
           = Some (json_dump (map to_dict (books L @ temp_books))) \<and>
         json_doc (json_dump (map to_dict (books L @ temp_books)))
           = Some (PyList (map (\<lambda>b. PyDict [(''title'', title b), (''author'', author b),
                                              (''genre'', genre b), (''year'', year b)])
                             (books L @ temp_books))) \<and>
         read_json_books (json_filename L) (snd (snd (import_library filename L w)))
           = Inr (books L @ temp_books)) \<and>
      (json_filename L \<in> read_only w \<longrightarrow>
         files (snd (snd (import_library filename L w))) = files w) \<and>
      (json_filename L \<notin> read_only w \<and> \<not> dump_ok (map to_dict (books L @ temp_books)) \<longrightarrow>
         read_json_books (json_filename L) (snd (snd (import_library filename L w)))
           = Inl JSONDecodeError)) \<and>
   (import_library filename L w = (True, L', w') \<longrightarrow>
      (\<exists>new_books. import_parse filename w = Some (Inr new_books) \<and>
         books L' = books L @ new_books))"
proof (intro conjI impI)
  let ?bs = "books L @ temp_books"
  let ?f = "json_dump (map to_dict ?bs)"
  assume p: "import_parse filename w = Some (Inr temp_books)"
  then show r: "import_library filename L w
        = (True, snd (save_library ''json'' (L\<lparr>books := ?bs\<rparr>) w))"
    by (simp add: import_library_cases)
  show st: "fst (snd (import_library filename L w)) = L\<lparr>books := ?bs\<rparr>"
    by (simp add: r save_library_store)
  then show "books (fst (snd (import_library filename L w))) = ?bs"
    by simp
  have "snd (snd (save_library ''json'' (L\<lparr>books := ?bs\<rparr>) w))
      = snd (snd (import_library filename L w))"
    by (simp add: r)
  from save_json_failure [OF this]
  have fa: "(json_filename L \<in> read_only w \<longrightarrow>
        files (snd (snd (import_library filename L w))) = files w) \<and>
      (json_filename L \<notin> read_only w \<and> \<not> dump_ok (map to_dict ?bs) \<longrightarrow>
         read_json_books (json_filename L) (snd (snd (import_library filename L w)))
           = Inl JSONDecodeError)"
    by simp
  {
    assume "json_filename L \<in> read_only w"
    with fa show "files (snd (snd (import_library filename L w))) = files w"
      by blast
  }
  {
    assume "json_filename L \<notin> read_only w \<and> \<not> dump_ok (map to_dict ?bs)"
    with fa show "read_json_books (json_filename L) (snd (snd (import_library filename L w)))
           = Inl JSONDecodeError"
      by blast
  }
  assume n: "json_filename L \<notin> read_only w \<and> dump_ok (map to_dict ?bs)"
  then show w': "snd (snd (import_library filename L w)) = write_file (json_filename L) ?f w"
    by (simp add: r save_library_json)
  show "files (snd (snd (import_library filename L w))) (json_filename L) = Some ?f"
    unfolding w' by (rule files_write_file)
  from n show "json_doc ?f
      = Some (PyList (map (\<lambda>b. PyDict [(''title'', title b), (''author'', author b),
                                         (''genre'', genre b), (''year'', year b)]) ?bs))"
    by (simp add: json_dump_def to_dict_def comp_def)
  from n show "read_json_books (json_filename L) (snd (snd (import_library filename L w))) = Inr ?bs"
    unfolding w' by (simp only: read_json_books_written if_True)
next
  assume t: "import_library filename L w = (True, L', w')"
  then obtain tb where p: "import_parse filename w = Some (Inr tb)"
    by (auto simp: import_library_cases split: option.splits sum.splits)
  with t have "L' = fst (snd (save_library ''json'' (L\<lparr>books := books L @ tb\<rparr>) w))"
    by (simp add: import_library_cases)
  then have "books L' = books L @ tb"
    by (simp add: save_library_store)
  with p show "\<exists>new_books. import_parse filename w = Some (Inr new_books) \<and>
         books L' = books L @ new_books"
    by blast
qed

lemma import_parse_extra_csv:
  "import_parse ''extra.csv'' (write_file ''extra.csv'' extra_csv no_files) = Some (Inr [emma])"
proof -
  have i: "int_of_str ''1815'' = Inr 1815"
    by code_simp
  have b: "book_of_row (row_dict [''title'', ''author'', ''genre'', ''year'']
                 [''Emma'', ''Jane Austen'', ''Novel'', ''1815'']) = Inr emma"
    by (simp add: book_of_row_def row_dict_def row_getitem_def py_int_def cell_val_def i emma_def)
  have "read_csv_books ''extra.csv'' (write_file ''extra.csv'' extra_csv no_files)
      = map_err book_of_row (dict_reader [[''title'', ''author'', ''genre'', ''year''],
                 [''Emma'', ''Jane Austen'', ''Novel'', ''1815'']])"
    by (rule read_csv_books_rows [where f = extra_csv])
      (simp_all add: files_write_file extra_csv_def row_ok_def field_limit_def)
  then have "read_csv_books ''extra.csv'' (write_file ''extra.csv'' extra_csv no_files) = Inr [emma]"
    by (simp add: b)
  then show ?thesis
    by (simp add: import_parse_def endswith_examples)
qed

theorem import_appends_and_persists_witness:
  "import_parse ''extra.csv'' (write_file ''extra.csv'' extra_csv no_files) = Some (Inr [emma]) \<and>
   json_filename shelf \<notin> read_only (write_file ''extra.csv'' extra_csv no_files) \<and>
   dump_ok (map to_dict (books shelf @ [emma])) \<and>
   length (books shelf) = 2 \<and>
   length (books (fst (snd (import_library ''extra.csv'' shelf
      (write_file ''extra.csv'' extra_csv no_files))))) = 3 \<and>
   books (fst (snd (import_library ''extra.csv'' shelf
      (write_file ''extra.csv'' extra_csv no_files)))) = [dune, foundation, emma] \<and>
   json_doc (json_dump (map to_dict [dune, foundation, emma])) =
     Some (PyList
        [PyDict [(''title'', PyStr ''Dune''), (''author'', PyStr ''Frank Herbert''),
                 (''genre'', PyStr ''Sci-Fi''), (''year'', PyInt 1965)],
         PyDict [(''title'', PyStr ''Foundation''), (''author'', PyStr ''Isaac Asimov''),
                 (''genre'', PyStr ''Sci-Fi''), (''year'', PyInt 1951)],
         PyDict [(''title'', PyStr ''Emma''), (''author'', PyStr ''Jane Austen''),
                 (''genre'', PyStr ''Novel''), (''year'', PyInt 1815)]]) \<and>
   files (snd (snd (import_library ''extra.csv'' shelf (write_file ''extra.csv'' extra_csv no_files))))
       ''library_data.json''
     = Some (json_dump (map to_dict [dune, foundation, emma])) \<and>
   read_json_books ''library_data.json''
      (snd (snd (import_library ''extra.csv'' shelf (write_file ''extra.csv'' extra_csv no_files))))
     = Inr [dune, foundation, emma]"
proof -
  let ?w = "write_file ''extra.csv'' extra_csv no_files"
  note p = import_parse_extra_csv
  have n: "json_filename shelf \<notin> read_only ?w"
    by (simp add: write_file_def no_files_def)
  have j: "json_filename shelf = ''library_data.json''" and b: "books shelf = [dune, foundation]"
    by (simp_all add: shelf_def)
  have ok: "dump_ok (map to_dict (books shelf @ [emma]))"
    using example_books_ok(6) by (simp add: b)
  from import_appends_and_persists
    [where filename = "''extra.csv''" and w = ?w and temp_books = "[emma]" and L = shelf] p n ok
  have "books (fst (snd (import_library ''extra.csv'' shelf ?w))) = books shelf @ [emma]"
    and "files (snd (snd (import_library ''extra.csv'' shelf ?w))) (json_filename shelf)
           = Some (json_dump (map to_dict (books shelf @ [emma])))"
    and "read_json_books (json_filename shelf) (snd (snd (import_library ''extra.csv'' shelf ?w)))
           = Inr (books shelf @ [emma])"
    by blast+
  then have x: "books (fst (snd (import_library ''extra.csv'' shelf ?w))) = [dune, foundation, emma]"
    and y: "files (snd (snd (import_library ''extra.csv'' shelf ?w))) ''library_data.json''
           = Some (json_dump (map to_dict [dune, foundation, emma]))"
    and z: "read_json_books ''library_data.json'' (snd (snd (import_library ''extra.csv'' shelf ?w)))
           = Inr [dune, foundation, emma]"
    by (simp_all add: j b)
  have doc: "json_doc (json_dump (map to_dict [dune, foundation, emma])) =
     Some (PyList
        [PyDict [(''title'', PyStr ''Dune''), (''author'', PyStr ''Frank Herbert''),
                 (''genre'', PyStr ''Sci-Fi''), (''year'', PyInt 1965)],
         PyDict [(''title'', PyStr ''Foundation''), (''author'', PyStr ''Isaac Asimov''),
                 (''genre'', PyStr ''Sci-Fi''), (''year'', PyInt 1951)],
         PyDict [(''title'', PyStr ''Emma''), (''author'', PyStr ''Jane Austen''),
                 (''genre'', PyStr ''Novel''), (''year'', PyInt 1815)]])"
    using example_books_ok(6) by (simp add: json_dump_def to_dict_def dune_def foundation_def emma_def)
  have l2: "length (books shelf) = 2"
    by (simp add: b)
  have l3: "length (books (fst (snd (import_library ''extra.csv'' shelf ?w)))) = 3"
    by (simp add: x)
  from p n ok l2 l3 x doc y z show ?thesis by blast
qed

lemma load_library_cases:
  "load_library L w =
     (if path_exists (json_filename L) w then
        (case read_json_books (json_filename L) w of
           Inl e \<Rightarrow> (False, L, showerror ''Failed to load library''
                                 (Some (PyException ''JSON load error'' e)) w)
         | Inr bs \<Rightarrow> (True, L\<lparr>books := bs\<rparr>, w))
      else if path_exists (csv_filename L) w then
        (case read_csv_books (csv_filename L) w of
           Inl e \<Rightarrow> (False, L, showerror ''Failed to load library''
                                 (Some (PyException ''CSV load error'' e)) w)
         | Inr bs \<Rightarrow> (True, L\<lparr>books := bs\<rparr>, w))
      else (False, L, w))"
  by (simp add: load_library_def load_from_json_def load_from_csv_def split: sum.splits)

lemma empty_library_names:
  "json_filename empty_library = ''library_data.json''"
  "csv_filename empty_library = ''library_data.csv''"
  "books empty_library = []"
  by (simp_all add: empty_library_def)

text \<open>
  Claim C8. A new store looks at the canonical JSON file first. If it exists, the store
  holds what \<open>_load_from_json\<close> reads from it, or stays empty and shows the error when
  that fails; the CSV file is not consulted. Only when the JSON file is absent and the
  canonical CSV file exists does the store hold what \<open>_load_from_csv\<close> reads (or stay
  empty on an error). With neither file the store is empty and nothing else happens.
\<close>

theorem restore_prefers_json:
  "(path_exists ''library_data.json'' w \<and> read_json_books ''library_data.json'' w = Inr bs \<longrightarrow>
      Library_init w = (empty_library\<lparr>books := bs\<rparr>, w)) \<and>
   (path_exists ''library_data.json'' w \<and> read_json_books ''library_data.json'' w = Inl e \<longrightarrow>
      Library_init w =
        (empty_library,
         showerror ''Failed to load library'' (Some (PyException ''JSON load error'' e)) w)) \<and>
   (\<not> path_exists ''library_data.json'' w \<and> path_exists ''library_data.csv'' w \<and>
    read_csv_books ''library_data.csv'' w = Inr bs \<longrightarrow>
      Library_init w = (empty_library\<lparr>books := bs\<rparr>, w)) \<and>
   (\<not> path_exists ''library_data.json'' w \<and> path_exists ''library_data.csv'' w \<and>
    read_csv_books ''library_data.csv'' w = Inl e \<longrightarrow>
      Library_init w =
        (empty_library,
         showerror ''Failed to load library'' (Some (PyException ''CSV load error'' e)) w)) \<and>
   (\<not> path_exists ''library_data.json'' w \<and> \<not> path_exists ''library_data.csv'' w \<longrightarrow>
      Library_init w = (empty_library, w) \<and> books (fst (Library_init w)) = [])"
  by (simp add: Library_init_def load_library_cases empty_library_names)


theorem restore_prefers_json_witness:
  "path_exists ''library_data.json''
     (write_file ''library_data.csv'' (csv_dump fieldnames (map to_dict [emma]))
        (write_file ''library_data.json'' (json_dump (map to_dict [dune])) no_files)) \<and>
   Library_init
     (write_file ''library_data.csv'' (csv_dump fieldnames (map to_dict [emma]))
        (write_file ''library_data.json'' (json_dump (map to_dict [dune])) no_files))
     = (empty_library\<lparr>books := [dune]\<rparr>,
        write_file ''library_data.csv'' (csv_dump fieldnames (map to_dict [emma]))
          (write_file ''library_data.json'' (json_dump (map to_dict [dune])) no_files)) \<and>
   \<not> path_exists ''library_data.json''
     (write_file ''library_data.csv'' (csv_dump fieldnames (map to_dict [emma])) no_files) \<and>
   Library_init (write_file ''library_data.csv'' (csv_dump fieldnames (map to_dict [emma])) no_files)
     = (empty_library\<lparr>books := [emma]\<rparr>,
        write_file ''library_data.csv'' (csv_dump fieldnames (map to_dict [emma])) no_files) \<and>
   \<not> path_exists ''library_data.csv'' no_files \<and>
   Library_init no_files = (empty_library, no_files)"
proof -
  let ?wj = "write_file ''library_data.json'' (json_dump (map to_dict [dune])) no_files"
  let ?wb = "write_file ''library_data.csv'' (csv_dump fieldnames (map to_dict [emma])) ?wj"
  let ?wc = "write_file ''library_data.csv'' (csv_dump fieldnames (map to_dict [emma])) no_files"
  have ne: "''library_data.json'' \<noteq> ''library_data.csv''"
    by simp
  have f: "files ?wb ''library_data.json'' = files ?wj ''library_data.json''"
    using ne by (simp add: write_file_def)
  have pj: "path_exists ''library_data.json'' ?wb"
    by (simp add: path_exists_def write_file_def)
  have "read_json_books ''library_data.json'' ?wb = read_json_books ''library_data.json'' ?wj"
    by (simp only: read_json_books_def open_r_def f)
  then have rj: "read_json_books ''library_data.json'' ?wb = Inr [dune]"
    by (simp only: read_json_books_written example_books_ok if_True)
  have nj: "\<not> path_exists ''library_data.json'' ?wc"
    by (simp add: path_exists_def write_file_def no_files_def)
  have pc: "path_exists ''library_data.csv'' ?wc"
    by (rule path_exists_written)
  have e: "list_all is_record [emma]"
    by (simp add: is_record_def emma_def)
  have "list_all (\<lambda>b. ints_ok (year b)) [emma]"
    by (simp add: emma_def int_ok_small)
  with e have "snd (write_rows fieldnames (map to_dict [emma])) = None"
    by (simp only: write_rows_records)
  moreover have "list_all (\<lambda>b. str_len (title b) \<le> field_limit \<and> str_len (author b) \<le> field_limit \<and>
                        str_len (genre b) \<le> field_limit) [emma]"
    by (simp add: emma_def field_limit_def)
  ultimately have rc: "read_csv_books ''library_data.csv'' ?wc = Inr [emma]"
    using e by (intro read_csv_books_written)
  have nn: "\<not> path_exists ''library_data.json'' no_files" "\<not> path_exists ''library_data.csv'' no_files"
    by (simp_all add: path_exists_def no_files_def)
  from restore_prefers_json [where w = ?wb and bs = "[dune]"] pj rj
  have a: "Library_init ?wb = (empty_library\<lparr>books := [dune]\<rparr>, ?wb)"
    by blast
  from restore_prefers_json [where w = ?wc and bs = "[emma]"] nj pc rc
  have b: "Library_init ?wc = (empty_library\<lparr>books := [emma]\<rparr>, ?wc)"
    by blast
  from restore_prefers_json [where w = no_files] nn
  have c: "Library_init no_files = (empty_library, no_files)"
    by blast
  from pj a nj b nn(2) c show ?thesis by blast
qed

lemma from_dict_missing_key:
  assumes "k \<in> set fieldnames" and "map_of kvs k = None"
  shows "\<exists>k'. k' \<in> set fieldnames \<and> map_of kvs k' = None \<and>
              from_dict (PyDict kvs) = Inl (KeyError k')"
  using assms
  by (cases "map_of kvs ''title''"; cases "map_of kvs ''author''";
      cases "map_of kvs ''genre''"; cases "map_of kvs ''year''")
    (auto simp: from_dict_def fieldnames_def)

text \<open>
  Claim C2. A mapping that lacks one of the four keys is rejected with \<open>KeyError\<close> (the
  fact above), as the claim says. For a value of the wrong type the claim asks for an
  error too, and the code does not raise one: \<open>Book.from_dict\<close> passes the four values
  on unchecked. At the canonical JSON file whose one record has the text
  \<open>nineteen sixty-five\<close> as its year, \<open>from_dict\<close> returns a book with that text as its
  year and \<open>load_library\<close> returns \<open>True\<close> with the book in the collection. The sibling
  path does reject the value: the CSV file with the same row makes \<open>load_library\<close>
  return \<open>False\<close> after a \<open>ValueError\<close> from \<open>int\<close>, the collection left empty.
\<close>

theorem from_dict_accepts_text_year:
  "\<not> is_int (PyStr ''nineteen sixty-five'') \<and>
   from_dict (PyDict odd_year) =
     Inr \<lparr>title = PyStr ''Dune'', author = PyStr ''Frank Herbert'', genre = PyStr ''Sci-Fi'',
          year = PyStr ''nineteen sixty-five''\<rparr> \<and>
   load_library empty_library (write_file ''library_data.json'' odd_json no_files) =
     (True,
      empty_library\<lparr>books := [\<lparr>title = PyStr ''Dune'', author = PyStr ''Frank Herbert'',
                                genre = PyStr ''Sci-Fi'', year = PyStr ''nineteen sixty-five''\<rparr>]\<rparr>,
      write_file ''library_data.json'' odd_json no_files) \<and>
   load_library empty_library (write_file ''library_data.csv'' odd_csv no_files) =
     (False, empty_library,
      showerror ''Failed to load library'' (Some (PyException ''CSV load error'' ValueError))
        (write_file ''library_data.csv'' odd_csv no_files))"
proof -
  have d: "from_dict (PyDict odd_year) =
     Inr \<lparr>title = PyStr ''Dune'', author = PyStr ''Frank Herbert'', genre = PyStr ''Sci-Fi'',
          year = PyStr ''nineteen sixty-five''\<rparr>"
    by (simp add: from_dict_def odd_year_def)
  have "ints_ok (PyList [PyDict odd_year])"
    by (simp add: odd_year_def)
  then have r: "read_json_books ''library_data.json'' (write_file ''library_data.json'' odd_json no_files)
      = Inr [\<lparr>title = PyStr ''Dune'', author = PyStr ''Frank Herbert'', genre = PyStr ''Sci-Fi'',
          year = PyStr ''nineteen sixty-five''\<rparr>]"
    by (simp add: read_json_books_def open_r_written json_load_def odd_json_def d)
  have j: "load_library empty_library (write_file ''library_data.json'' odd_json no_files) =
     (True,
      empty_library\<lparr>books := [\<lparr>title = PyStr ''Dune'', author = PyStr ''Frank Herbert'',
                                genre = PyStr ''Sci-Fi'', year = PyStr ''nineteen sixty-five''\<rparr>]\<rparr>,
      write_file ''library_data.json'' odd_json no_files)"
    by (simp add: load_library_cases empty_library_names path_exists_written r)
  have i: "int_of_str ''nineteen sixty-five'' = Inl ValueError"
    by code_simp
  have b: "book_of_row (row_dict [''title'', ''author'', ''genre'', ''year'']
                 [''Dune'', ''Frank Herbert'', ''Sci-Fi'', ''nineteen sixty-five'']) = Inl ValueError"
    by (simp add: book_of_row_def row_dict_def row_getitem_def py_int_def i)
  have "read_csv_books ''library_data.csv'' (write_file ''library_data.csv'' odd_csv no_files)
      = map_err book_of_row (dict_reader [[''title'', ''author'', ''genre'', ''year''],
                 [''Dune'', ''Frank Herbert'', ''Sci-Fi'', ''nineteen sixty-five'']])"
    by (rule read_csv_books_rows [where f = odd_csv])
      (simp_all add: files_write_file odd_csv_def row_ok_def field_limit_def)
  then have rc: "read_csv_books ''library_data.csv'' (write_file ''library_data.csv'' odd_csv no_files)
      = Inl ValueError"
    by (simp add: b)
  have nj: "\<not> path_exists ''library_data.json'' (write_file ''library_data.csv'' odd_csv no_files)"
    by (simp add: path_exists_def write_file_def no_files_def)
  have c: "load_library empty_library (write_file ''library_data.csv'' odd_csv no_files) =
     (False, empty_library,
      showerror ''Failed to load library'' (Some (PyException ''CSV load error'' ValueError))
        (write_file ''library_data.csv'' odd_csv no_files))"
    by (simp add: load_library_cases empty_library_names path_exists_written nj rc)
  from d j c show ?thesis by simp
qed

end
